theory Spec2Isabelle
  imports Complex_Main
begin

section \<open>JavaScript numbers and values\<close>

text \<open>
  A JavaScript number is a finite value, \<open>NaN\<close>, \<open>+Infinity\<close> or \<open>-Infinity\<close>.
  Finite values are exact reals here: the binary rounding of IEEE doubles and the sign
  of zero are not part of the model. Every operator below is the JavaScript operator of
  the same meaning on these four kinds of number.
\<close>

datatype jsnum = Fin real | PInf | NInf | NaN

fun num_neg :: "jsnum \<Rightarrow> jsnum" where
  "num_neg (Fin a) = Fin (- a)"
| "num_neg PInf = NInf"
| "num_neg NInf = PInf"
| "num_neg NaN = NaN"

fun num_add :: "jsnum \<Rightarrow> jsnum \<Rightarrow> jsnum" where
  "num_add (Fin a) (Fin b) = Fin (a + b)"
| "num_add NaN _ = NaN"
| "num_add _ NaN = NaN"
| "num_add PInf NInf = NaN"
| "num_add NInf PInf = NaN"
| "num_add PInf _ = PInf"
| "num_add _ PInf = PInf"
| "num_add NInf _ = NInf"
| "num_add _ NInf = NInf"

definition num_sub :: "jsnum \<Rightarrow> jsnum \<Rightarrow> jsnum" where
  "num_sub a b = num_add a (num_neg b)"

fun num_mul :: "jsnum \<Rightarrow> jsnum \<Rightarrow> jsnum" where
  "num_mul (Fin a) (Fin b) = Fin (a * b)"
| "num_mul NaN _ = NaN"
| "num_mul _ NaN = NaN"
| "num_mul (Fin a) PInf = (if a = 0 then NaN else if 0 < a then PInf else NInf)"
| "num_mul (Fin a) NInf = (if a = 0 then NaN else if 0 < a then NInf else PInf)"
| "num_mul PInf (Fin b) = (if b = 0 then NaN else if 0 < b then PInf else NInf)"
| "num_mul NInf (Fin b) = (if b = 0 then NaN else if 0 < b then NInf else PInf)"
| "num_mul PInf PInf = PInf"
| "num_mul NInf NInf = PInf"
| "num_mul PInf NInf = NInf"
| "num_mul NInf PInf = NInf"

fun num_div :: "jsnum \<Rightarrow> jsnum \<Rightarrow> jsnum" where
  "num_div (Fin a) (Fin b) =
     (if b = 0 then (if a = 0 then NaN else if 0 < a then PInf else NInf)
      else Fin (a / b))"
| "num_div NaN _ = NaN"
| "num_div _ NaN = NaN"
| "num_div (Fin a) _ = Fin 0"
| "num_div PInf (Fin b) = (if 0 \<le> b then PInf else NInf)"
| "num_div NInf (Fin b) = (if 0 \<le> b then NInf else PInf)"
| "num_div _ _ = NaN"

fun num_lt :: "jsnum \<Rightarrow> jsnum \<Rightarrow> bool" where
  "num_lt (Fin a) (Fin b) = (a < b)"
| "num_lt NaN _ = False"
| "num_lt _ NaN = False"
| "num_lt _ NInf = False"
| "num_lt PInf _ = False"
| "num_lt _ _ = True"

definition num_gt :: "jsnum \<Rightarrow> jsnum \<Rightarrow> bool" where
  "num_gt a b = num_lt b a"

fun num_eq :: "jsnum \<Rightarrow> jsnum \<Rightarrow> bool" where
  "num_eq NaN _ = False"
| "num_eq _ NaN = False"
| "num_eq a b = (a = b)"

definition num_le :: "jsnum \<Rightarrow> jsnum \<Rightarrow> bool" where
  "num_le a b = (num_lt a b \<or> num_eq a b)"

definition num_ge :: "jsnum \<Rightarrow> jsnum \<Rightarrow> bool" where
  "num_ge a b = num_le b a"

fun num_abs :: "jsnum \<Rightarrow> jsnum" where
  "num_abs (Fin a) = Fin \<bar>a\<bar>"
| "num_abs NaN = NaN"
| "num_abs _ = PInf"

fun num_sqrt :: "jsnum \<Rightarrow> jsnum" where
  "num_sqrt (Fin a) = (if a < 0 then NaN else Fin (sqrt a))"
| "num_sqrt PInf = PInf"
| "num_sqrt _ = NaN"

text \<open>\<open>Math.round\<close> rounds to the nearest integer, a half towards \<open>+Infinity\<close>.\<close>

fun num_round :: "jsnum \<Rightarrow> jsnum" where
  "num_round (Fin a) = Fin (of_int \<lfloor>a + 1 / 2\<rfloor>)"
| "num_round x = x"

text \<open>\<open>Math.pow(x, 2)\<close>.\<close>

fun num_pow2 :: "jsnum \<Rightarrow> jsnum" where
  "num_pow2 (Fin a) = Fin (a * a)"
| "num_pow2 NaN = NaN"
| "num_pow2 _ = PInf"

text \<open>\<open>Math.max(...xs)\<close> and \<open>Math.min(...xs)\<close>: the identity on no argument, \<open>NaN\<close> as
  soon as one argument is \<open>NaN\<close>.\<close>

definition max2 :: "jsnum \<Rightarrow> jsnum \<Rightarrow> jsnum" where
  "max2 a b = (if a = NaN \<or> b = NaN then NaN else if num_lt a b then b else a)"

definition min2 :: "jsnum \<Rightarrow> jsnum \<Rightarrow> jsnum" where
  "min2 a b = (if a = NaN \<or> b = NaN then NaN else if num_lt b a then b else a)"

definition math_max :: "jsnum list \<Rightarrow> jsnum" where
  "math_max xs = foldl max2 NInf xs"

definition math_min :: "jsnum list \<Rightarrow> jsnum" where
  "math_min xs = foldl min2 PInf xs"

text \<open>
  The values a \<open>score\<close> or \<open>proj\<close> property can hold: a number, \<open>undefined\<close> (also an
  absent property), \<open>null\<close> or a boolean. Strings and objects in these properties are
  outside the model. \<open>to_num\<close> is the conversion that the arithmetic and relational
  operators apply, \<open>is_number\<close> is \<open>typeof v === 'number'\<close>.
\<close>

datatype jsval = VNum jsnum | VUndefined | VNull | VBool bool

fun to_num :: "jsval \<Rightarrow> jsnum" where
  "to_num (VNum x) = x"
| "to_num VUndefined = NaN"
| "to_num VNull = Fin 0"
| "to_num (VBool b) = (if b then Fin 1 else Fin 0)"

fun is_number :: "jsval \<Rightarrow> bool" where
  "is_number (VNum _) = True"
| "is_number _ = False"

definition js_plus :: "jsval \<Rightarrow> jsval \<Rightarrow> jsnum" where
  "js_plus a b = num_add (to_num a) (to_num b)"

definition js_minus :: "jsval \<Rightarrow> jsval \<Rightarrow> jsnum" where
  "js_minus a b = num_sub (to_num a) (to_num b)"

text \<open>\<open>xs[i]\<close>: \<open>undefined\<close> outside the array.\<close>

definition js_index :: "jsval list \<Rightarrow> int \<Rightarrow> jsval" where
  "js_index xs i = (if 0 \<le> i \<and> i < int (length xs) then xs ! nat i else VUndefined)"

text \<open>
  \<open>Array.prototype.sort\<close> with a comparator is a stable sort; a comparator result of
  \<open>NaN\<close> counts as zero. The model is the stable insertion sort: each element goes
  before the first element it is strictly smaller than. (For a comparator that is not a
  consistent order, which needs a \<open>NaN\<close> or two infinities of one sign among the keys,
  JavaScript leaves the order to the engine.)
\<close>

fun insert_by :: "('a \<Rightarrow> 'a \<Rightarrow> jsnum) \<Rightarrow> 'a \<Rightarrow> 'a list \<Rightarrow> 'a list" where
  "insert_by c x [] = [x]"
| "insert_by c x (y # ys) =
     (if num_lt (c x y) (Fin 0) then x # y # ys else y # insert_by c x ys)"

definition js_sort :: "('a \<Rightarrow> 'a \<Rightarrow> jsnum) \<Rightarrow> 'a list \<Rightarrow> 'a list" where
  "js_sort c xs = foldl (\<lambda>acc x. insert_by c x acc) [] xs"

text \<open>In an array of property values, \<open>sort\<close> moves every \<open>undefined\<close> to the end
  without calling the comparator.\<close>

definition js_sort_vals :: "(jsval \<Rightarrow> jsval \<Rightarrow> jsnum) \<Rightarrow> jsval list \<Rightarrow> jsval list" where
  "js_sort_vals c xs =
     js_sort c (filter (\<lambda>v. v \<noteq> VUndefined) xs) @ filter (\<lambda>v. v = VUndefined) xs"

text \<open>\<open>xs.reduce((sum, x) => sum + x, 0)\<close> on numbers and on property values.\<close>

definition sum_nums :: "jsnum list \<Rightarrow> jsnum" where
  "sum_nums xs = foldl num_add (Fin 0) xs"

definition sum_vals :: "jsval list \<Rightarrow> jsnum" where
  "sum_vals xs = foldl (\<lambda>s x. num_add s (to_num x)) (Fin 0) xs"

definition num_of_nat :: "nat \<Rightarrow> jsnum" where
  "num_of_nat n = Fin (real n)"

section \<open>Team objects and the three strategies of the scoring agent\<close>

text \<open>
  A team object as the engine reads it: the identifier properties \<open>team\<close> and
  \<open>canonicalCode\<close> (\<open>None\<close> when absent), \<open>score\<close> and \<open>proj\<close>. The strategies
  return copies of the team objects extended with \<open>result\<close> and \<open>marginVsMedian\<close>.
\<close>

datatype outcome = WIN | LOSS | TIE

datatype js_error = Error string | TypeError string

record team_entry =
  team :: "string option"
  canonicalCode :: "string option"
  score :: jsval
  proj :: jsval

record scored_team = team_entry +
  result :: outcome
  marginVsMedian :: jsnum

record stats =
  st_median :: jsval
  highScore :: jsnum
  lowScore :: jsnum
  st_range :: jsnum
  winners :: nat
  losers :: nat
  ties :: nat
  averageScore :: jsnum
  standardDeviation :: jsnum

record median_result =
  median :: jsnum
  teams :: "scored_team list"
  stats :: stats
  quality :: jsnum

definition calculateStandardDeviation :: "jsval list \<Rightarrow> jsnum" where
  "calculateStandardDeviation scores =
     (let mean = num_div (sum_vals scores) (num_of_nat (length scores));
          squaredDiffs = map (\<lambda>score. num_pow2 (num_sub (to_num score) mean)) scores;
          variance = num_div (sum_nums squaredDiffs) (num_of_nat (length scores))
      in num_sqrt variance)"

definition calculateStats :: "scored_team list \<Rightarrow> jsval \<Rightarrow> stats" where
  "calculateStats ts med =
     (let scores = map score ts in
      \<lparr> st_median = med,
        highScore = math_max (map to_num scores),
        lowScore = math_min (map to_num scores),
        st_range = num_sub (math_max (map to_num scores)) (math_min (map to_num scores)),
        winners = length (filter (\<lambda>t. result t = WIN) ts),
        losers = length (filter (\<lambda>t. result t = LOSS) ts),
        ties = length (filter (\<lambda>t. result t = TIE) ts),
        averageScore = num_div (sum_vals scores) (num_of_nat (length scores)),
        standardDeviation = calculateStandardDeviation scores \<rparr>)"

text \<open>
  The three strategies end alike: every team is compared with the (unrounded) median,
  the copies are sorted by score from high to low, and the median is rounded to two
  decimals only in the \<open>median\<close> property of the result.
\<close>

definition score_team :: "jsval \<Rightarrow> team_entry \<Rightarrow> scored_team" where
  "score_team med t =
     \<lparr> team = team t, canonicalCode = canonicalCode t, score = score t, proj = proj t,
       result = (if num_gt (to_num (score t)) (to_num med) then WIN
                 else if num_lt (to_num (score t)) (to_num med) then LOSS else TIE),
       marginVsMedian = js_minus (score t) med \<rparr>"

definition score_teams :: "jsval \<Rightarrow> team_entry list \<Rightarrow> scored_team list" where
  "score_teams med teamData =
     js_sort (\<lambda>a b. js_minus (score b) (score a)) (map (score_team med) teamData)"

definition round2 :: "jsnum \<Rightarrow> jsnum" where
  "round2 x = num_div (num_round (num_mul x (Fin 100))) (Fin 100)"

definition calculateRFFLMedian :: "team_entry list \<Rightarrow> js_error + median_result" where
  "calculateRFFLMedian teamData =
     (let scores = js_sort_vals (\<lambda>a b. js_minus b a) (map score teamData) in
      if length scores \<noteq> 12 then Inl (Error ''RFFL median requires exactly 12 teams'')
      else
        let med = VNum (num_div (js_plus (js_index scores 5) (js_index scores 6)) (Fin 2));
            ts = score_teams med teamData
        in Inr \<lparr> median = round2 (to_num med), teams = ts,
                 stats = calculateStats ts med, quality = Fin 1 \<rparr>)"

definition calculateStatisticalMedian :: "team_entry list \<Rightarrow> median_result" where
  "calculateStatisticalMedian teamData =
     (let scores = js_sort_vals (\<lambda>a b. js_minus a b) (map score teamData);
          n = int (length scores);
          med = (if n mod 2 = 0
                 then VNum (num_div (js_plus (js_index scores (n div 2 - 1))
                                             (js_index scores (n div 2))) (Fin 2))
                 else js_index scores (n div 2));
          ts = score_teams med teamData
      in \<lparr> median = round2 (to_num med), teams = ts,
           stats = calculateStats ts med, quality = Fin (95 / 100) \<rparr>)"

text \<open>
  The loop of the weighted strategy over the (score, weight) pairs sorted by score,
  with the cumulative weight so far; \<open>median\<close> stays at its initial 0 when the loop
  never reaches half of the total weight.
\<close>

fun weighted_loop :: "(jsval \<times> jsnum) list \<Rightarrow> jsnum \<Rightarrow> jsnum \<Rightarrow> jsval" where
  "weighted_loop [] cumulativeWeight medianWeight = VNum (Fin 0)"
| "weighted_loop ((s, w) # rest) cumulativeWeight medianWeight =
     (let c = num_add cumulativeWeight w in
      if num_ge c medianWeight then
        (case rest of
           (s', _) # _ \<Rightarrow> if num_eq c medianWeight then VNum (num_div (js_plus s s') (Fin 2)) else s
         | [] \<Rightarrow> s)
      else weighted_loop rest c medianWeight)"

text \<open>\<open>weights[index]\<close> is \<open>undefined\<close>, so \<open>NaN\<close> in the sums, beyond the weights given.\<close>

definition weight_at :: "jsnum list \<Rightarrow> nat \<Rightarrow> jsnum" where
  "weight_at ws i = (if i < length ws then ws ! i else NaN)"

definition calculateWeightedMedian :: "team_entry list \<Rightarrow> jsnum list option \<Rightarrow> median_result" where
  "calculateWeightedMedian teamData weights =
     (let ws = (case weights of None \<Rightarrow> map (\<lambda>_. Fin 1) teamData | Some w \<Rightarrow> w);
          weightedData = js_sort (\<lambda>a b. js_minus (fst a) (fst b))
                           (map (\<lambda>i. (score (teamData ! i), weight_at ws i)) [0 ..< length teamData]);
          totalWeight = sum_nums ws;
          medianWeight = num_div totalWeight (Fin 2);
          med = weighted_loop weightedData (Fin 0) medianWeight;
          ts = score_teams med teamData
      in \<lparr> median = round2 (to_num med), teams = ts,
           stats = calculateStats ts med, quality = Fin (9 / 10) \<rparr>)"

section \<open>MedianCalculator\<close>

text \<open>Decimal digits of an array length or index, for the template strings.\<close>

definition digit_char :: "nat \<Rightarrow> char" where
  "digit_char d = ''0123456789'' ! d"

function show_nat :: "nat \<Rightarrow> string" where
  "show_nat n = (if n < 10 then [digit_char n] else show_nat (n div 10) @ [digit_char (n mod 10)])"
  by pat_completeness auto
termination
  by (relation "measure id") auto

declare show_nat.simps [simp del]

record ranked_team = team_entry +
  rank :: nat
  mc_marginVsMedian :: jsnum
  mc_result :: outcome
  isAboveMedian :: bool
  isBelowMedian :: bool
  isAtMedian :: bool

record median_stats =
  wins :: nat
  losses :: nat
  mc_ties :: nat
  mc_highScore :: jsnum
  mc_lowScore :: jsnum
  mc_averageScore :: jsnum
  avgMarginVsMedian :: jsnum
  medianAsPercentOfAverage :: jsnum
  scoreRange :: jsnum

record median_calculation =
  mc_median :: jsnum
  sixthPlaceScore :: jsval
  seventhPlaceScore :: jsval
  mc_teams :: "ranked_team list"
  mc_stats :: median_stats
  calculatedAt :: string

text \<open>\<open>roundScore\<close> with \<open>precision = 2\<close>.\<close>

definition roundScore :: "jsnum \<Rightarrow> jsnum" where
  "roundScore x = num_div (num_round (num_mul x (Fin (10 ^ 2)))) (Fin (10 ^ 2))"

definition rank_team :: "jsnum \<Rightarrow> team_entry \<Rightarrow> nat \<Rightarrow> ranked_team" where
  "rank_team med t index =
     (let m = roundScore (num_sub (to_num (score t)) med) in
      \<lparr> team = team t, canonicalCode = canonicalCode t, score = score t, proj = proj t,
        rank = index + 1,
        mc_marginVsMedian = m,
        mc_result = (if num_gt m (Fin 0) then WIN else if num_lt m (Fin 0) then LOSS else TIE),
        isAboveMedian = num_gt m (Fin 0),
        isBelowMedian = num_lt m (Fin 0),
        isAtMedian = num_eq m (Fin 0) \<rparr>)"

definition calculateMedianStats :: "ranked_team list \<Rightarrow> jsnum \<Rightarrow> median_stats" where
  "calculateMedianStats results med =
     (let scores = map score results;
          high = math_max (map to_num scores);
          low = math_min (map to_num scores);
          average = roundScore (num_div (sum_vals scores) (num_of_nat (length scores)));
          marginsVsMedian = map (\<lambda>t. num_abs (mc_marginVsMedian t)) results
      in \<lparr> wins = length (filter (\<lambda>t. mc_result t = WIN) results),
           losses = length (filter (\<lambda>t. mc_result t = LOSS) results),
           mc_ties = length (filter (\<lambda>t. mc_result t = TIE) results),
           mc_highScore = high,
           mc_lowScore = low,
           mc_averageScore = average,
           avgMarginVsMedian =
             roundScore (num_div (sum_nums marginsVsMedian) (num_of_nat (length marginsVsMedian))),
           medianAsPercentOfAverage = roundScore (num_mul (num_div med average) (Fin 100)),
           scoreRange = roundScore (num_sub high low) \<rparr>)"

text \<open>\<open>now\<close> is what \<open>new Date().toISOString()\<close> returns at the call.\<close>

definition calculateMedian :: "string \<Rightarrow> team_entry list \<Rightarrow> js_error + median_calculation" where
  "calculateMedian now teamScores =
     (if length teamScores \<noteq> 12
      then Inl (Error (''Expected exactly 12 teams, got '' @ show_nat (length teamScores)))
      else
        let sortedTeams = js_sort (\<lambda>a b. js_minus (score b) (score a)) teamScores;
            sixthPlace = sortedTeams ! 5;
            seventhPlace = sortedTeams ! 6;
            med = roundScore (num_div (js_plus (score sixthPlace) (score seventhPlace)) (Fin 2));
            results = map (\<lambda>(t, index). rank_team med t index)
                          (zip sortedTeams [0 ..< length sortedTeams])
        in Inr \<lparr> mc_median = med,
                 sixthPlaceScore = score sixthPlace,
                 seventhPlaceScore = score seventhPlace,
                 mc_teams = results,
                 mc_stats = calculateMedianStats results med,
                 calculatedAt = now \<rparr>)"

text \<open>\<open>validateTeamData\<close> throws at the first defect and returns \<open>true\<close> otherwise.
  (The message of an invalid score ends with the score itself, which is left out here.)\<close>

datatype team_data = NotAnArray | TeamArray "team_entry list"

definition falsy_id :: "string option \<Rightarrow> bool" where
  "falsy_id s = (s = None \<or> s = Some [])"

fun validateTeams :: "team_entry list \<Rightarrow> nat \<Rightarrow> js_error + bool" where
  "validateTeams [] index = Inr True"
| "validateTeams (t # ts) index =
     (if \<not> is_number (score t) \<or> to_num (score t) = NaN
      then Inl (Error (''Invalid score for team at index '' @ show_nat index))
      else if falsy_id (team t) \<and> falsy_id (canonicalCode t)
      then Inl (Error (''Missing team identifier at index '' @ show_nat index))
      else validateTeams ts (index + 1))"

fun validateTeamData :: "team_data \<Rightarrow> js_error + bool" where
  "validateTeamData NotAnArray = Inl (Error ''Team data must be an array'')"
| "validateTeamData (TeamArray teamData) =
     (if length teamData \<noteq> 12
      then Inl (Error (''Expected 12 teams, got '' @ show_nat (length teamData)))
      else validateTeams teamData 0)"

section \<open>The scoring agent: algorithms and validation\<close>

record calc_result = median_result +
  algorithm :: string
  calculationTime :: jsnum
  confidence :: jsnum

text \<open>
  The \<open>calculate\<close> closures that \<open>setupScoringAlgorithms\<close> registers; they are never
  replaced. The engine calls \<open>calculate\<close> with the team data alone, so the weighted
  strategy runs without weights.
\<close>

definition scoringAlgorithms ::
  "string \<Rightarrow> (team_entry list \<Rightarrow> js_error + median_result) option" where
  "scoringAlgorithms name =
     (if name = ''rffl_standard'' then Some calculateRFFLMedian
      else if name = ''statistical_median''
      then Some (\<lambda>td. Inr (calculateStatisticalMedian td))
      else if name = ''weighted_median''
      then Some (\<lambda>td. Inr (calculateWeightedMedian td None))
      else None)"

text \<open>
  The \<open>accuracy\<close> of each registered algorithm is a property that changes while the
  agent runs: \<open>setupScoringAlgorithms\<close> sets it and \<open>incorporateFeedback\<close> updates it.
  It is carried as a table from algorithm names to numbers, part of the agent's state;
  the entry of a name that is not registered is never read.
  (\<open>priority\<close>, the other property that changes, is read by no calculation.)
\<close>

definition initial_accuracy :: "string \<Rightarrow> jsnum" where
  "initial_accuracy name =
     (if name = ''rffl_standard'' then Fin 1
      else if name = ''statistical_median'' then Fin (95 / 100)
      else if name = ''weighted_median'' then Fin (9 / 10)
      else NaN)"

text \<open>\<open>incorporateFeedback\<close>: nothing happens for a falsy \<open>feedback.accuracy\<close> (0 or
  \<open>NaN\<close>) or for a calculation whose algorithm is not registered.\<close>

definition incorporateFeedback :: "(string \<Rightarrow> jsnum) \<Rightarrow> string \<Rightarrow> jsnum \<Rightarrow> (string \<Rightarrow> jsnum)" where
  "incorporateFeedback accuracy algorithmName feedbackAccuracy =
     (if feedbackAccuracy = Fin 0 \<or> feedbackAccuracy = NaN then accuracy
      else if scoringAlgorithms algorithmName = None then accuracy
      else accuracy (algorithmName :=
             num_add (num_mul (accuracy algorithmName) (Fin (9 / 10)))
                     (num_mul feedbackAccuracy (Fin (1 / 10)))))"

text \<open>
  \<open>calculateWithAlgorithm\<close>: \<open>accuracy\<close> is the table at the time of the call, and the
  pair \<open>clock\<close> holds the two readings of \<open>performance.now()\<close>, before and after the
  strategy ran. Every strategy starts with \<open>teamData.map\<close>, a \<open>TypeError\<close> on a value
  that is not an array.
\<close>

definition calculateWithAlgorithm ::
  "(string \<Rightarrow> jsnum) \<Rightarrow> string \<Rightarrow> team_data \<Rightarrow> jsnum \<times> jsnum \<Rightarrow> js_error + calc_result" where
  "calculateWithAlgorithm accuracy algorithmName teamData clock =
     (case scoringAlgorithms algorithmName of
        None \<Rightarrow> Inl (Error (''Unknown algorithm: '' @ algorithmName))
      | Some calculate \<Rightarrow>
          (case teamData of
             NotAnArray \<Rightarrow> Inl (TypeError ''teamData.map is not a function'')
           | TeamArray td \<Rightarrow>
               (case calculate td of
                  Inl e \<Rightarrow> Inl e
                | Inr r \<Rightarrow>
                    Inr \<lparr> median = median r, teams = teams r, stats = stats r,
                          quality = quality r, algorithm = algorithmName,
                          calculationTime = num_sub (snd clock) (fst clock),
                          confidence = accuracy algorithmName \<rparr>)))"

record validation =
  isValid :: bool
  errors :: "string list"

text \<open>\<open>preValidateData\<close>: the checks of the \<open>forEach\<close> callback, in index order.\<close>

fun preValidateTeams :: "team_entry list \<Rightarrow> nat \<Rightarrow> string list" where
  "preValidateTeams [] index = []"
| "preValidateTeams (t # ts) index =
     (if \<not> is_number (score t) then [''Team '' @ show_nat index @ '': Invalid score''] else [])
     @ (if num_lt (to_num (score t)) (Fin 0) \<or> num_gt (to_num (score t)) (Fin 300)
        then [''Team '' @ show_nat index @ '': Score out of range''] else [])
     @ preValidateTeams ts (index + 1)"

definition preValidateData :: "team_data \<Rightarrow> validation" where
  "preValidateData teamData =
     (let errs = (case teamData of
                    NotAnArray \<Rightarrow> [''Team data must be an array'']
                  | TeamArray td \<Rightarrow>
                      (if length td \<noteq> 12 then [''Must have exactly 12 teams''] else [])
                      @ preValidateTeams td 0)
      in \<lparr> isValid = (errs = []), errors = errs \<rparr>)"

text \<open>
  The validation rules are functions of one untyped argument. Three kinds of value
  reach them or are what they are written for: a number (the median), an array of team
  objects, and a result object. A rule returns a truth value or throws.
\<close>

datatype rule_arg = ArgNumber jsnum | ArgTeams "scored_team list" | ArgResult calc_result

text \<open>The number an argument is converted to by \<open>>=\<close> and \<open><=\<close>: a plain object is
  \<open>NaN\<close>, an array of objects is \<open>NaN\<close> unless it is empty (the empty string, so 0).\<close>

fun arg_to_num :: "rule_arg \<Rightarrow> jsnum" where
  "arg_to_num (ArgNumber m) = m"
| "arg_to_num (ArgTeams ts) = (if ts = [] then Fin 0 else NaN)"
| "arg_to_num (ArgResult r) = NaN"

definition median_range :: "rule_arg \<Rightarrow> js_error + bool" where
  "median_range m = Inr (num_ge (arg_to_num m) (Fin 0) \<and> num_le (arg_to_num m) (Fin 300))"

text \<open>\<open>teams && teams.length === 12\<close>: only an array has a \<open>length\<close>.\<close>

fun team_count :: "rule_arg \<Rightarrow> js_error + bool" where
  "team_count (ArgTeams ts) = Inr (length ts = 12)"
| "team_count _ = Inr False"

definition validateScoreConsistency :: "scored_team list \<Rightarrow> bool" where
  "validateScoreConsistency ts =
     (let scores = map score ts;
          stdDev = calculateStandardDeviation scores
      in num_gt stdDev (Fin 5) \<and> num_lt stdDev (Fin 50))"

fun score_consistency :: "rule_arg \<Rightarrow> js_error + bool" where
  "score_consistency (ArgTeams ts) = Inr (validateScoreConsistency ts)"
| "score_consistency _ = Inl (TypeError ''teams.map is not a function'')"

definition validateCalculationAccuracy :: "calc_result \<Rightarrow> bool" where
  "validateCalculationAccuracy r =
     (if length (teams r) \<noteq> 12 then False
      else
        let scores = js_sort_vals (\<lambda>a b. js_minus b a) (map score (teams r));
            expectedMedian = num_div (js_plus (js_index scores 5) (js_index scores 6)) (Fin 2);
            actualMedian = median r
        in num_lt (num_abs (num_sub expectedMedian actualMedian)) (Fin (1 / 100)))"

text \<open>A number and an array have no \<open>teams\<close> property: \<open>!result.teams\<close> holds.\<close>

fun calculation_accuracy :: "rule_arg \<Rightarrow> js_error + bool" where
  "calculation_accuracy (ArgResult r) = Inr (validateCalculationAccuracy r)"
| "calculation_accuracy _ = Inr False"

record rule =
  rule_name :: string
  validate :: "rule_arg \<Rightarrow> js_error + bool"
  message :: string

definition setupValidationRules :: "rule list" where
  "setupValidationRules =
     [ \<lparr> rule_name = ''median_range'', validate = median_range,
         message = ''Median must be between 0 and 300'' \<rparr>,
       \<lparr> rule_name = ''team_count'', validate = team_count,
         message = ''Must have exactly 12 teams'' \<rparr>,
       \<lparr> rule_name = ''score_consistency'', validate = score_consistency,
         message = ''Scores must be consistent and realistic'' \<rparr>,
       \<lparr> rule_name = ''calculation_accuracy'', validate = calculation_accuracy,
         message = ''Median calculation must be mathematically accurate'' \<rparr> ]"

text \<open>The message of a caught exception.\<close>

fun error_message :: "js_error \<Rightarrow> string" where
  "error_message (Error m) = m"
| "error_message (TypeError m) = m"

text \<open>\<open>validateResult\<close> hands the whole result object to every rule.\<close>

definition apply_rule :: "rule \<Rightarrow> calc_result \<Rightarrow> string list" where
  "apply_rule r res =
     (case validate r (ArgResult res) of
        Inr ok \<Rightarrow> if ok then [] else [rule_name r @ '': '' @ message r]
      | Inl e \<Rightarrow> [rule_name r @ '': Validation error - '' @ error_message e])"

definition validateResult :: "rule list \<Rightarrow> calc_result \<Rightarrow> validation" where
  "validateResult validationRules res =
     (let errs = concat (map (\<lambda>r. apply_rule r res) validationRules)
      in \<lparr> isValid = (errs = []), errors = errs \<rparr>)"

section \<open>Anomaly detection\<close>

datatype anomaly =
    StatisticalOutlier nat jsval jsnum jsnum
  | HistoricalMedianAnomaly jsnum jsnum jsnum jsnum
  | ScoreClustering jsnum
  | ProjectionVariance nat "string option" jsnum jsval jsval jsnum

text \<open>The \<open>type\<close> and \<open>severity\<close> properties of a finding.\<close>

fun anomaly_type :: "anomaly \<Rightarrow> string" where
  "anomaly_type (StatisticalOutlier index sc zScore sev) = ''statistical_outlier''"
| "anomaly_type (HistoricalMedianAnomaly med historicalMean zScore sev) = ''historical_median_anomaly''"
| "anomaly_type (ScoreClustering sev) = ''score_clustering''"
| "anomaly_type (ProjectionVariance index tm var actual projected sev) = ''projection_variance''"

fun anomaly_severity :: "anomaly \<Rightarrow> jsnum" where
  "anomaly_severity (StatisticalOutlier index sc zScore sev) = sev"
| "anomaly_severity (HistoricalMedianAnomaly med historicalMean zScore sev) = sev"
| "anomaly_severity (ScoreClustering sev) = sev"
| "anomaly_severity (ProjectionVariance index tm var actual projected sev) = sev"

record detection =
  hasAnomalies :: bool
  anomalies :: "anomaly list"
  severity :: jsnum

definition report :: "anomaly list \<Rightarrow> detection" where
  "report as =
     \<lparr> hasAnomalies = (as \<noteq> []), anomalies = as,
       severity = (if as \<noteq> [] then math_max (map anomaly_severity as) else Fin 0) \<rparr>"

record history_record =
  timestamp :: jsnum
  h_median :: jsnum
  h_algorithm :: string
  h_calculationTime :: jsnum
  h_confidence :: jsnum
  h_quality :: jsnum

record anomaly_data =
  d_median :: jsnum
  d_teams :: "scored_team list"
  d_scores :: "jsval list"

definition detectStatisticalAnomalies :: "jsval list \<Rightarrow> detection" where
  "detectStatisticalAnomalies scores =
     (let mean = num_div (sum_vals scores) (num_of_nat (length scores));
          stdDev = calculateStandardDeviation scores;
          threshold = Fin (25 / 10)
      in report (concat (map (\<lambda>(sc, index).
            let zScore = num_abs (num_div (num_sub (to_num sc) mean) stdDev) in
            if num_gt zScore threshold
            then [StatisticalOutlier index sc zScore (min2 (num_div zScore (Fin 3)) (Fin 1))]
            else [])
          (zip scores [0 ..< length scores]))))"

definition detectHistoricalAnomalies :: "history_record list \<Rightarrow> jsnum \<Rightarrow> detection" where
  "detectHistoricalAnomalies medianHistory med =
     (let historicalMedians = map h_median medianHistory in
      if length historicalMedians < 5 then report []
      else
        let historicalMean = num_div (sum_nums historicalMedians)
                                     (num_of_nat (length historicalMedians));
            historicalStdDev = calculateStandardDeviation (map VNum historicalMedians);
            medianZScore = num_abs (num_div (num_sub med historicalMean) historicalStdDev)
        in report (if num_gt medianZScore (Fin 2)
                   then [HistoricalMedianAnomaly med historicalMean medianZScore
                           (min2 (num_div medianZScore (Fin 3)) (Fin 1))]
                   else []))"

text \<open>The gaps \<open>scores[i] - scores[i-1]\<close> for \<open>i\<close> from 1.\<close>

fun gaps_of :: "jsval list \<Rightarrow> jsnum list" where
  "gaps_of (a # b # rest) = js_minus b a # gaps_of (b # rest)"
| "gaps_of _ = []"

definition detectPatternAnomalies :: "anomaly_data \<Rightarrow> detection" where
  "detectPatternAnomalies data =
     (let scores = js_sort_vals (\<lambda>a b. js_minus a b) (map score (d_teams data));
          gaps = gaps_of scores;
          averageGap = num_div (sum_nums gaps) (num_of_nat (length gaps));
          largeGaps = filter (\<lambda>gap. num_gt gap (num_mul averageGap (Fin 3))) gaps
      in report (if length largeGaps > 0
                 then [ScoreClustering (min2 (num_div (num_of_nat (length largeGaps)) (Fin 3)) (Fin 1))]
                 else []))"

definition detectProjectionAnomalies :: "scored_team list \<Rightarrow> detection" where
  "detectProjectionAnomalies ts =
     report (concat (map (\<lambda>(t, index).
        let projectionVariance = num_div (num_abs (js_minus (score t) (proj t))) (to_num (proj t)) in
        if num_gt projectionVariance (Fin (1 / 2))
        then [ProjectionVariance index (team t) projectionVariance (score t) (proj t)
                (min2 projectionVariance (Fin 1))]
        else [])
      (zip ts [0 ..< length ts])))"

text \<open>
  The registered detectors. Each \<open>detect\<close> closure hands its first argument to the
  method it wraps, and \<open>detectAnomalies\<close> calls every one of them with the same data
  object \<open>{median, teams, scores}\<close>. The argument is untyped: \<open>det_arg\<close> lists the
  values the methods are written for and the data object. A method that calls
  \<open>reduce\<close>, \<open>forEach\<close> or \<open>map\<close> on a value without that method throws a \<open>TypeError\<close>.
\<close>

datatype det_arg =
    DNumber jsnum
  | DScores "jsval list"
  | DTeams "scored_team list"
  | DData anomaly_data

text \<open>An array of team objects in place of the scores: every sum is a string or \<open>NaN\<close>
  and no z-score exceeds the threshold.\<close>

fun detect_statistical :: "det_arg \<Rightarrow> js_error + detection" where
  "detect_statistical (DScores scores) = Inr (detectStatisticalAnomalies scores)"
| "detect_statistical (DTeams ts) = Inr (report [])"
| "detect_statistical _ = Inl (TypeError ''scores.reduce is not a function'')"

text \<open>The number that \<open>median - historicalMean\<close> converts its left operand to.\<close>

fun det_to_num :: "det_arg \<Rightarrow> jsnum" where
  "det_to_num (DNumber m) = m"
| "det_to_num (DScores []) = Fin 0"
| "det_to_num (DScores [VNum x]) = x"
| "det_to_num (DScores [VBool b]) = NaN"
| "det_to_num (DScores [v]) = Fin 0"
| "det_to_num (DScores (v # w # vs)) = NaN"
| "det_to_num (DTeams ts) = (if ts = [] then Fin 0 else NaN)"
| "det_to_num (DData d) = NaN"

definition detect_historical :: "history_record list \<Rightarrow> det_arg \<Rightarrow> js_error + detection" where
  "detect_historical medianHistory arg = Inr (detectHistoricalAnomalies medianHistory (det_to_num arg))"

fun detect_pattern :: "det_arg \<Rightarrow> js_error + detection" where
  "detect_pattern (DData data) = Inr (detectPatternAnomalies data)"
| "detect_pattern _ = Inl (TypeError ''Cannot read properties of undefined (reading map)'')"

text \<open>On an array of scores, \<open>team.score\<close> is \<open>undefined\<close> for a number or a boolean and
  throws for \<open>null\<close> and \<open>undefined\<close>.\<close>

fun detect_projection :: "det_arg \<Rightarrow> js_error + detection" where
  "detect_projection (DTeams ts) = Inr (detectProjectionAnomalies ts)"
| "detect_projection (DScores scores) =
     (if VNull \<in> set scores \<or> VUndefined \<in> set scores
      then Inl (TypeError ''Cannot read properties of null or undefined (reading score)'')
      else Inr (report []))"
| "detect_projection _ = Inl (TypeError ''teams.forEach is not a function'')"

record detector_result = detection +
  detector :: string
  det_confidence :: jsnum

record verdict = detection +
  detectorResults :: "detector_result list"

definition anomalyDetectors ::
  "history_record list \<Rightarrow> (string \<times> (det_arg \<Rightarrow> js_error + detection) \<times> jsnum) list" where
  "anomalyDetectors medianHistory =
     [ (''statistical'', detect_statistical, Fin (9 / 10)),
       (''historical'', detect_historical medianHistory, Fin (85 / 100)),
       (''pattern'', detect_pattern, Fin (8 / 10)),
       (''projection'', detect_projection, Fin (75 / 100)) ]"

text \<open>\<open>r.severity || 0\<close>: 0 and \<open>NaN\<close> are falsy.\<close>

definition or_zero :: "jsnum \<Rightarrow> jsnum" where
  "or_zero x = (if x = NaN then Fin 0 else x)"

definition aggregateAnomalyResults :: "detector_result list \<Rightarrow> verdict" where
  "aggregateAnomalyResults results =
     (let allAnomalies = concat (map anomalies results);
          maxSeverity = math_max (map (\<lambda>r. or_zero (severity r)) results @ [Fin 0])
      in \<lparr> hasAnomalies = (allAnomalies \<noteq> []), anomalies = allAnomalies,
           severity = maxSeverity, detectorResults = results \<rparr>)"

text \<open>\<open>detectAnomalies\<close>: a detector that throws is logged and contributes nothing.\<close>

definition run_detector ::
  "det_arg \<Rightarrow> string \<times> (det_arg \<Rightarrow> js_error + detection) \<times> jsnum \<Rightarrow> detector_result list" where
  "run_detector data d =
     (case d of (name, detect, conf) \<Rightarrow>
        (case detect data of
           Inl e \<Rightarrow> []
         | Inr det \<Rightarrow> [\<lparr> hasAnomalies = hasAnomalies det, anomalies = anomalies det,
                          severity = severity det, detector = name, det_confidence = conf \<rparr>]))"

definition detectAnomalies :: "history_record list \<Rightarrow> det_arg \<Rightarrow> verdict" where
  "detectAnomalies medianHistory data =
     aggregateAnomalyResults (concat (map (run_detector data) (anomalyDetectors medianHistory)))"

definition performAnomalyDetection :: "history_record list \<Rightarrow> calc_result \<Rightarrow> verdict" where
  "performAnomalyDetection medianHistory res =
     detectAnomalies medianHistory
       (DData \<lparr> d_median = median res, d_teams = teams res, d_scores = map score (teams res) \<rparr>)"

section \<open>The history store and the calculation engine\<close>

text \<open>\<open>storeCalculationHistory\<close>: \<open>push\<close>, then one \<open>shift\<close> when more than 100 records
  are held. \<open>now\<close> is the reading of \<open>Date.now()\<close>.\<close>

definition history_entry :: "jsnum \<Rightarrow> calc_result \<Rightarrow> history_record" where
  "history_entry now res =
     \<lparr> timestamp = now, h_median = median res, h_algorithm = algorithm res,
       h_calculationTime = calculationTime res, h_confidence = confidence res,
       h_quality = quality res \<rparr>"

definition storeCalculationHistory ::
  "history_record list \<Rightarrow> jsnum \<Rightarrow> calc_result \<Rightarrow> history_record list" where
  "storeCalculationHistory medianHistory now res =
     (let h = medianHistory @ [history_entry now res]
      in if length h > 100 then tl h else h)"

text \<open>
  The state of the agent that the engine reads and writes: the validation rules, the
  accuracy of the algorithms and the history. A run of the engine yields the algorithms
  it invoked, in order, whether it published the result for review, what it returned or
  threw, and the history afterwards. \<open>clock\<close> gives the two \<open>performance.now()\<close>
  readings around each algorithm.
\<close>

record agent =
  validationRules :: "rule list"
  algorithmAccuracy :: "string \<Rightarrow> jsnum"
  medianHistory :: "history_record list"

definition new_agent :: agent where
  "new_agent = \<lparr> validationRules = setupValidationRules, algorithmAccuracy = initial_accuracy,
                 medianHistory = [] \<rparr>"

record run =
  invoked :: "string list"
  flagged :: bool
  outcome :: "js_error + calc_result"
  history_after :: "history_record list"

text \<open>The loop of \<open>intelligentCalculator.calculateWithFallback\<close> over the remaining
  algorithm names: the algorithms invoked and the result returned or the error thrown.\<close>

fun fallback_loop ::
  "agent \<Rightarrow> (string \<Rightarrow> jsnum \<times> jsnum) \<Rightarrow> team_data \<Rightarrow> string list
     \<Rightarrow> string list \<times> (js_error + calc_result)" where
  "fallback_loop a clock teamData [] = ([], Inl (Error ''All calculation algorithms failed''))"
| "fallback_loop a clock teamData (algorithmName # rest) =
     (case calculateWithAlgorithm (algorithmAccuracy a) algorithmName teamData (clock algorithmName) of
        Inr res \<Rightarrow>
          if isValid (validateResult (validationRules a) res) then ([algorithmName], Inr res)
          else (case fallback_loop a clock teamData rest of
                  (tr, out) \<Rightarrow> (algorithmName # tr, out))
      | Inl e \<Rightarrow>
          (case fallback_loop a clock teamData rest of
             (tr, out) \<Rightarrow> (algorithmName # tr, out)))"

definition calculateWithFallback ::
  "agent \<Rightarrow> (string \<Rightarrow> jsnum \<times> jsnum) \<Rightarrow> team_data \<Rightarrow> string list \<times> (js_error + calc_result)" where
  "calculateWithFallback a clock teamData =
     fallback_loop a clock teamData [''statistical_median'', ''weighted_median'']"

text \<open>\<open>errors.join(', ')\<close>.\<close>

fun join_errors :: "string list \<Rightarrow> string" where
  "join_errors [] = []"
| "join_errors [e] = e"
| "join_errors (e # es) = e @ '', '' @ join_errors es"

text \<open>
  \<open>intelligentCalculator.calculate\<close>. It is an arrow function, so its \<open>this\<close> is the
  agent. When the primary result fails validation it evaluates
  \<open>this.calculateWithFallback(teamData)\<close>; \<open>calculateWithFallback\<close> is a property of
  \<open>this.intelligentCalculator\<close> and the agent has no method of that name, so the call
  throws a \<open>TypeError\<close> and the fallback loop above does not run.
\<close>

definition calculate ::
  "agent \<Rightarrow> (string \<Rightarrow> jsnum \<times> jsnum) \<Rightarrow> jsnum \<Rightarrow> team_data \<Rightarrow> run" where
  "calculate a clock now teamData =
     (let preValidation = preValidateData teamData in
      if \<not> isValid preValidation
      then \<lparr> invoked = [], flagged = False,
             outcome = Inl (Error (''Pre-validation failed: '' @ join_errors (errors preValidation))),
             history_after = medianHistory a \<rparr>
      else
        (case calculateWithAlgorithm (algorithmAccuracy a) ''rffl_standard'' teamData
                (clock ''rffl_standard'') of
           Inl e \<Rightarrow> \<lparr> invoked = [''rffl_standard''], flagged = False, outcome = Inl e,
                       history_after = medianHistory a \<rparr>
         | Inr primaryResult \<Rightarrow>
             if \<not> isValid (validateResult (validationRules a) primaryResult)
             then \<lparr> invoked = [''rffl_standard''], flagged = False,
                    outcome = Inl (TypeError ''this.calculateWithFallback is not a function''),
                    history_after = medianHistory a \<rparr>
             else
               let anomalyCheck = performAnomalyDetection (medianHistory a) primaryResult in
               \<lparr> invoked = [''rffl_standard''],
                 flagged = (hasAnomalies anomalyCheck \<and> num_gt (severity anomalyCheck) (Fin (8 / 10))),
                 outcome = Inr primaryResult,
                 history_after = storeCalculationHistory (medianHistory a) now primaryResult \<rparr>))"

section \<open>Inputs of the scenarios\<close>

definition mk_team :: "string \<Rightarrow> real \<Rightarrow> team_entry" where
  "mk_team name s =
     \<lparr> team = Some name, canonicalCode = None, score = VNum (Fin s), proj = VNum (Fin s) \<rparr>"

text \<open>Scenario A: the twelve scores of the specification.\<close>

definition scenarioA :: "team_entry list" where
  "scenarioA =
     [ mk_team ''T01'' (12420 / 100), mk_team ''T02'' (11750 / 100), mk_team ''T03'' (11150 / 100),
       mk_team ''T04'' (10730 / 100), mk_team ''T05'' (10150 / 100), mk_team ''T06'' (9740 / 100),
       mk_team ''T07'' (9430 / 100), mk_team ''T08'' (9160 / 100), mk_team ''T09'' (8720 / 100),
       mk_team ''T10'' (8330 / 100), mk_team ''T11'' (7870 / 100), mk_team ''T12'' (7442 / 100) ]"

text \<open>Scenario C: eleven entries.\<close>

definition eleven_teams :: "team_entry list" where
  "eleven_teams = take 11 scenarioA"

text \<open>Twelve entries that share one identifier, and Scenario A with one score above 300.\<close>

definition duplicate_ids :: "team_entry list" where
  "duplicate_ids = replicate 12 (mk_team ''DUP'' 100)"

definition out_of_range_teams :: "team_entry list" where
  "out_of_range_teams = scenarioA [3 := mk_team ''T04'' 301]"

text \<open>A clock on which every algorithm takes one millisecond.\<close>

definition unit_clock :: "string \<Rightarrow> jsnum \<times> jsnum" where
  "unit_clock name = (Fin 0, Fin 1)"

definition sample_record :: history_record where
  "sample_record =
     \<lparr> timestamp = Fin 0, h_median = Fin 100, h_algorithm = ''rffl_standard'',
       h_calculationTime = Fin 1, h_confidence = Fin 1, h_quality = Fin 1 \<rparr>"

definition sample_result :: calc_result where
  "sample_result =
     \<lparr> median = Fin 100, teams = [], stats = calculateStats [] (VNum (Fin 100)),
       quality = Fin 1, algorithm = ''rffl_standard'', calculationTime = Fin 1,
       confidence = Fin 1 \<rparr>"

text \<open>Scenario A with ranks 6 and 7 at 100.02 and 100.01: the median 100.015 rounds
  to 100.02, the score of rank 6.\<close>

definition near_tie :: "team_entry list" where
  "near_tie = scenarioA [5 := mk_team ''T06'' (10002 / 100), 6 := mk_team ''T07'' (10001 / 100)]"




section \<open>Properties of results\<close>

text \<open>The outcome and margin of the entries with a given score, and for
  \<open>MedianCalculator\<close> their rank as well.\<close>

definition outcomes_at :: "real \<Rightarrow> scored_team list \<Rightarrow> (outcome \<times> jsnum) list" where
  "outcomes_at s ts =
     map (\<lambda>t. (result t, marginVsMedian t)) (filter (\<lambda>t. score t = VNum (Fin s)) ts)"

definition mc_outcomes_at :: "real \<Rightarrow> ranked_team list \<Rightarrow> (nat \<times> outcome \<times> jsnum) list" where
  "mc_outcomes_at s ts =
     map (\<lambda>t. (rank t, mc_result t, mc_marginVsMedian t)) (filter (\<lambda>t. score t = VNum (Fin s)) ts)"

text \<open>An entry whose score is a finite number.\<close>

definition finite_score :: "team_entry \<Rightarrow> bool" where
  "finite_score t = (case score t of VNum (Fin x) \<Rightarrow> True | _ \<Rightarrow> False)"

text \<open>
  The unrounded median of each strategy, in the words of its formula: the average of
  ranks 6 and 7 of the scores from high to low; the central value, or the average of the
  two central values, of the scores from low to high; the score at which the cumulative
  weight reaches half of the total weight.
\<close>

definition ranked_scores :: "team_entry list \<Rightarrow> jsval list" where
  "ranked_scores td = js_sort_vals (\<lambda>a b. js_minus b a) (map score td)"

definition ascending_scores :: "team_entry list \<Rightarrow> jsval list" where
  "ascending_scores td = js_sort_vals (\<lambda>a b. js_minus a b) (map score td)"

definition standard_unrounded :: "team_entry list \<Rightarrow> jsval" where
  "standard_unrounded td =
     VNum (num_div (js_plus (js_index (ranked_scores td) 5) (js_index (ranked_scores td) 6)) (Fin 2))"

definition statistical_unrounded :: "team_entry list \<Rightarrow> jsval" where
  "statistical_unrounded td =
     (let n = int (length td) in
      if n mod 2 = 0
      then VNum (num_div (js_plus (js_index (ascending_scores td) (n div 2 - 1))
                                  (js_index (ascending_scores td) (n div 2))) (Fin 2))
      else js_index (ascending_scores td) (n div 2))"

definition weighted_unrounded :: "team_entry list \<Rightarrow> jsnum list option \<Rightarrow> jsval" where
  "weighted_unrounded td weights =
     (let ws = (case weights of None \<Rightarrow> map (\<lambda>_. Fin 1) td | Some w \<Rightarrow> w) in
      weighted_loop
        (js_sort (\<lambda>a b. js_minus (fst a) (fst b))
           (map (\<lambda>i. (score (td ! i), weight_at ws i)) [0 ..< length td]))
        (Fin 0) (num_div (sum_nums ws) (Fin 2)))"

text \<open>
  The outcome partition of an entry of the scoring agent against a median \<open>m\<close>: the
  margin is the score minus \<open>m\<close>, and the outcome is decided by the sign of the margin.
  For an entry of \<open>MedianCalculator\<close> the margin is that difference rounded to two
  decimals.
\<close>

definition partitioned :: "jsnum \<Rightarrow> scored_team \<Rightarrow> bool" where
  "partitioned m s \<longleftrightarrow>
     marginVsMedian s = num_sub (to_num (score s)) m
   \<and> (result s = WIN \<longleftrightarrow> num_gt (marginVsMedian s) (Fin 0))
   \<and> (result s = LOSS \<longleftrightarrow> num_lt (marginVsMedian s) (Fin 0))
   \<and> (result s = TIE \<longleftrightarrow> num_eq (marginVsMedian s) (Fin 0))"

definition mc_partitioned :: "jsnum \<Rightarrow> ranked_team \<Rightarrow> bool" where
  "mc_partitioned m s \<longleftrightarrow>
     mc_marginVsMedian s = roundScore (num_sub (to_num (score s)) m)
   \<and> (mc_result s = WIN \<longleftrightarrow> num_gt (mc_marginVsMedian s) (Fin 0))
   \<and> (mc_result s = LOSS \<longleftrightarrow> num_lt (mc_marginVsMedian s) (Fin 0))
   \<and> (mc_result s = TIE \<longleftrightarrow> num_eq (mc_marginVsMedian s) (Fin 0))"


section \<open>Basic facts\<close>

lemma length_insert_by: "length (insert_by c x xs) = Suc (length xs)"
  by (induction xs) auto

lemma length_foldl_insert_by:
  "length (foldl (\<lambda>acc x. insert_by c x acc) acc xs) = length acc + length xs"
  by (induction xs arbitrary: acc) (auto simp: length_insert_by)

lemma length_js_sort: "length (js_sort c xs) = length xs"
  by (simp add: js_sort_def length_foldl_insert_by)

lemma length_js_sort_vals: "length (js_sort_vals c xs) = length xs"
proof -
  have "length (filter (\<lambda>v. v \<noteq> VUndefined) xs) + length (filter (\<lambda>v. v = VUndefined) xs)
          = length xs"
    by (induction xs) simp_all
  then show ?thesis by (simp add: js_sort_vals_def length_js_sort)
qed

lemma store_length:
  "length h \<le> 100 \<Longrightarrow> length (storeCalculationHistory h now r) \<le> 100"
  by (auto simp: storeCalculationHistory_def Let_def)

lemma store_all_length:
  "length h \<le> 100 \<Longrightarrow>
   length (foldl (\<lambda>h (now, r). storeCalculationHistory h now r) h rs) \<le> 100"
  by (induction rs arbitrary: h) (auto simp: store_length)

lemma store_below:
  "length h < 100 \<Longrightarrow> storeCalculationHistory h now r = h @ [history_entry now r]"
  by (simp add: storeCalculationHistory_def Let_def)

lemma store_full:
  "length h = 100 \<Longrightarrow> storeCalculationHistory h now r = tl h @ [history_entry now r]"
  by (cases h) (simp_all add: storeCalculationHistory_def Let_def)

lemma validateResult_setup:
  "errors (validateResult setupValidationRules res) =
     ''median_range: Median must be between 0 and 300'' #
     ''team_count: Must have exactly 12 teams'' #
     ''score_consistency: Validation error - teams.map is not a function'' #
     apply_rule \<lparr> rule_name = ''calculation_accuracy'', validate = calculation_accuracy,
         message = ''Median calculation must be mathematically accurate'' \<rparr> res"
  by (simp add: validateResult_def setupValidationRules_def apply_rule_def median_range_def
      num_ge_def num_le_def Let_def)

lemma validateResult_setup_invalid: "\<not> isValid (validateResult setupValidationRules res)"
  by (simp add: validateResult_def setupValidationRules_def apply_rule_def median_range_def
      num_ge_def num_le_def Let_def)

lemma preValidate_length:
  "isValid (preValidateData teamData) \<Longrightarrow> \<exists>td. teamData = TeamArray td \<and> length td = 12"
  by (cases teamData) (auto simp: preValidateData_def Let_def split: if_splits)

lemma rffl_returns: "length td = 12 \<Longrightarrow> \<exists>r. calculateRFFLMedian td = Inr r"
  by (simp add: calculateRFFLMedian_def Let_def length_js_sort length_js_sort_vals)

lemma with_algorithm_standard:
  "length td = 12 \<Longrightarrow> \<exists>r. calculateWithAlgorithm acc ''rffl_standard'' (TeamArray td) clk = Inr r"
  using rffl_returns [of td]
  by (auto simp: calculateWithAlgorithm_def scoringAlgorithms_def)

lemma with_algorithm_statistical:
  "\<exists>r. calculateWithAlgorithm acc ''statistical_median'' (TeamArray td) clk = Inr r"
  by (simp add: calculateWithAlgorithm_def scoringAlgorithms_def)

lemma with_algorithm_weighted:
  "\<exists>r. calculateWithAlgorithm acc ''weighted_median'' (TeamArray td) clk = Inr r"
  by (simp add: calculateWithAlgorithm_def scoringAlgorithms_def)

lemma fallback_all_rejected:
  assumes "\<And>res. \<not> isValid (validateResult (validationRules a) res)"
  shows "fallback_loop a clock teamData names
           = (names, Inl (Error ''All calculation algorithms failed''))"
  using assms by (induction names) (auto split: sum.splits)

lemma scenarioA_prevalid:
  "preValidateData (TeamArray scenarioA) = \<lparr> isValid = True, errors = [] \<rparr>"
  by (simp add: preValidateData_def scenarioA_def mk_team_def num_gt_def)

lemma calculate_rejected:
  assumes v: "isValid (preValidateData teamData)"
    and rej: "\<And>res. \<not> isValid (validateResult (validationRules a) res)"
  shows "calculate a clock now teamData =
           \<lparr> invoked = [''rffl_standard''], flagged = False,
             outcome = Inl (TypeError ''this.calculateWithFallback is not a function''),
             history_after = medianHistory a \<rparr>"
proof -
  from preValidate_length [OF v] obtain td where td: "teamData = TeamArray td" "length td = 12"
    by blast
  from with_algorithm_standard [OF td(2)] obtain r
    where r: "calculateWithAlgorithm (algorithmAccuracy a) ''rffl_standard'' (TeamArray td)
                (clock ''rffl_standard'') = Inr r"
    by blast
  have "\<not> isValid (validateResult (validationRules a) r)" by (rule rej)
  with v r show ?thesis
    unfolding calculate_def Let_def td(1) by simp
qed

section \<open>The result validator rejects every result\<close>

text \<open>
  C1. \<open>validateResult\<close> hands the whole result object to each rule. With the rules that
  \<open>setupValidationRules\<close> installs, \<open>median_range\<close> and \<open>team_count\<close> are false on an
  object and \<open>score_consistency\<close> throws, so every result object is invalid, whatever
  strategy produced it. The fallback loop, whenever it runs, therefore ends in
  \<open>All calculation algorithms failed\<close>. But \<open>calculate\<close> does not reach the loop: on
  every input that passes pre-validation it invokes the standard algorithm alone and
  throws the \<open>TypeError\<close> of the call \<open>this.calculateWithFallback\<close>. It returns no
  result, and the error is not the one the claim names.
\<close>

theorem rejected_result_ends_in_type_error:
  "\<not> isValid (validateResult setupValidationRules res)
   \<and> ''median_range: Median must be between 0 and 300''
        \<in> set (errors (validateResult setupValidationRules res))
   \<and> ''team_count: Must have exactly 12 teams''
        \<in> set (errors (validateResult setupValidationRules res))
   \<and> ''score_consistency: Validation error - teams.map is not a function''
        \<in> set (errors (validateResult setupValidationRules res))
   \<and> calculateWithFallback (new_agent\<lparr>algorithmAccuracy := acc, medianHistory := h\<rparr>) clock teamData
        = ([''statistical_median'', ''weighted_median''],
           Inl (Error ''All calculation algorithms failed''))
   \<and> (isValid (preValidateData teamData) \<longrightarrow>
        calculate (new_agent\<lparr>algorithmAccuracy := acc, medianHistory := h\<rparr>) clock now teamData
          = \<lparr> invoked = [''rffl_standard''], flagged = False,
              outcome = Inl (TypeError ''this.calculateWithFallback is not a function''),
              history_after = h \<rparr>)"
proof -
  let ?a = "new_agent\<lparr>algorithmAccuracy := acc, medianHistory := h\<rparr>"
  have rules: "validationRules ?a = setupValidationRules" by (simp add: new_agent_def)
  have rej: "\<And>res. \<not> isValid (validateResult (validationRules ?a) res)"
    by (simp only: rules validateResult_setup_invalid not_False_eq_True)
  have fb: "calculateWithFallback ?a clock teamData =
      ([''statistical_median'', ''weighted_median''],
       Inl (Error ''All calculation algorithms failed''))"
    unfolding calculateWithFallback_def by (rule fallback_all_rejected [OF rej])
  have "calculate ?a clock now teamData
          = \<lparr> invoked = [''rffl_standard''], flagged = False,
              outcome = Inl (TypeError ''this.calculateWithFallback is not a function''),
              history_after = h \<rparr>"
    if v: "isValid (preValidateData teamData)"
    using calculate_rejected [OF v rej, of clock now] by (simp add: new_agent_def)
  with fb show ?thesis
    by (simp add: validateResult_setup validateResult_setup_invalid)
qed

theorem rejected_result_ends_in_type_error_witness:
  "isValid (preValidateData (TeamArray scenarioA))
   \<and> calculate new_agent unit_clock (Fin 0) (TeamArray scenarioA)
       = \<lparr> invoked = [''rffl_standard''], flagged = False,
           outcome = Inl (TypeError ''this.calculateWithFallback is not a function''),
           history_after = [] \<rparr>"
  using rejected_result_ends_in_type_error [where res = sample_result and acc = initial_accuracy
      and h = "[]" and clock = unit_clock and teamData = "TeamArray scenarioA" and now = "Fin 0"]
  by (simp add: scenarioA_prevalid new_agent_def)

section \<open>The history store is a bounded queue\<close>

text \<open>
  C10. From a history of at most 100 records, any sequence of recordings leaves at most
  100 records. A recording below capacity appends; a recording at capacity drops the
  head of the list, the record stored first, and appends the new record.
\<close>

theorem history_bounded_fifo:
  assumes "length h \<le> 100"
  shows "length (foldl (\<lambda>h (now, r). storeCalculationHistory h now r) h rs) \<le> 100
       \<and> (length h < 100 \<longrightarrow> storeCalculationHistory h now r = h @ [history_entry now r])
       \<and> (length h = 100 \<longrightarrow> storeCalculationHistory h now r = tl h @ [history_entry now r])"
  using assms store_all_length store_below store_full by blast

theorem history_bounded_fifo_witness:
  "length (replicate 100 sample_record) \<le> 100
   \<and> length (foldl (\<lambda>h (now, r). storeCalculationHistory h now r)
               (replicate 100 sample_record) [(Fin 7, sample_result), (Fin 8, sample_result)]) \<le> 100
   \<and> storeCalculationHistory (replicate 100 sample_record) (Fin 7) sample_result
      = tl (replicate 100 sample_record) @ [history_entry (Fin 7) sample_result]"
proof -
  have le: "length (replicate 100 sample_record) \<le> 100" by simp
  have eq: "length (replicate 100 sample_record) = 100" by simp
  from history_bounded_fifo [OF le, of "[(Fin 7, sample_result), (Fin 8, sample_result)]"
      "Fin 7" sample_result] le eq
  show ?thesis by blast
qed

section \<open>Input errors end the run\<close>

text \<open>
  C7. For an array of any length other than 12, \<open>preValidateData\<close> is invalid and its
  first error is the count error; \<open>calculate\<close> then throws the pre-validation error
  with no algorithm invoked, nothing published and the history untouched.
\<close>

theorem wrong_count_short_circuits:
  assumes "length td \<noteq> 12"
  shows "\<not> isValid (preValidateData (TeamArray td))
       \<and> errors (preValidateData (TeamArray td)) = ''Must have exactly 12 teams'' # preValidateTeams td 0
       \<and> calculate a clock now (TeamArray td) =
           \<lparr> invoked = [], flagged = False,
             outcome = Inl (Error (''Pre-validation failed: ''
                         @ join_errors (''Must have exactly 12 teams'' # preValidateTeams td 0))),
             history_after = medianHistory a \<rparr>"
  using assms by (simp add: calculate_def preValidateData_def Let_def)

theorem wrong_count_short_circuits_witness:
  "length eleven_teams \<noteq> 12
   \<and> \<not> isValid (preValidateData (TeamArray eleven_teams))
   \<and> errors (preValidateData (TeamArray eleven_teams)) = [''Must have exactly 12 teams'']
   \<and> calculate new_agent unit_clock (Fin 0) (TeamArray eleven_teams) =
       \<lparr> invoked = [], flagged = False,
         outcome = Inl (Error ''Pre-validation failed: Must have exactly 12 teams''),
         history_after = [] \<rparr>"
proof -
  have n: "length eleven_teams \<noteq> 12" by (simp add: eleven_teams_def scenarioA_def)
  have p: "preValidateTeams eleven_teams 0 = []"
    by (simp add: eleven_teams_def scenarioA_def mk_team_def num_gt_def)
  from wrong_count_short_circuits [OF n, of new_agent unit_clock "Fin 0"] n p
  show ?thesis by (simp add: new_agent_def)
qed

section \<open>The fallback chain\<close>

text \<open>
  C4. For every agent (whatever its validation rules and accuracies) and every input
  that passes pre-validation, the three algorithms return results \<open>p\<close>, \<open>s\<close>, \<open>w\<close>.
  The loop of \<open>calculateWithFallback\<close>, run by itself, does what the claim says: the
  statistical algorithm first, the weighted algorithm only after the statistical result
  failed validation, and \<open>All calculation algorithms failed\<close> when the weighted result
  fails as well. But \<open>calculate\<close> never runs the loop: when the standard result \<open>p\<close>
  fails validation, it has invoked the standard algorithm alone and throws the
  \<open>TypeError\<close> of the call \<open>this.calculateWithFallback\<close>.
\<close>

theorem fallback_not_reached:
  assumes "isValid (preValidateData teamData)"
  shows "\<exists>p s w.
      calculateWithAlgorithm (algorithmAccuracy a) ''rffl_standard'' teamData
        (clock ''rffl_standard'') = Inr p
    \<and> calculateWithAlgorithm (algorithmAccuracy a) ''statistical_median'' teamData
        (clock ''statistical_median'') = Inr s
    \<and> calculateWithAlgorithm (algorithmAccuracy a) ''weighted_median'' teamData
        (clock ''weighted_median'') = Inr w
    \<and> (\<not> isValid (validateResult (validationRules a) p) \<longrightarrow>
        calculate a clock now teamData =
          \<lparr> invoked = [''rffl_standard''], flagged = False,
            outcome = Inl (TypeError ''this.calculateWithFallback is not a function''),
            history_after = medianHistory a \<rparr>)
    \<and> calculateWithFallback a clock teamData =
          (if isValid (validateResult (validationRules a) s)
           then ([''statistical_median''], Inr s)
           else if isValid (validateResult (validationRules a) w)
           then ([''statistical_median'', ''weighted_median''], Inr w)
           else ([''statistical_median'', ''weighted_median''],
                 Inl (Error ''All calculation algorithms failed'')))"
proof -
  from preValidate_length [OF assms] obtain td where td: "teamData = TeamArray td" "length td = 12"
    by blast
  from with_algorithm_standard [OF td(2)] obtain p
    where p: "calculateWithAlgorithm (algorithmAccuracy a) ''rffl_standard'' teamData
                (clock ''rffl_standard'') = Inr p"
    unfolding td(1) by blast
  from with_algorithm_statistical obtain s
    where s: "calculateWithAlgorithm (algorithmAccuracy a) ''statistical_median'' teamData
                (clock ''statistical_median'') = Inr s"
    unfolding td(1) by blast
  from with_algorithm_weighted obtain w
    where w: "calculateWithAlgorithm (algorithmAccuracy a) ''weighted_median'' teamData
                (clock ''weighted_median'') = Inr w"
    unfolding td(1) by blast
  have c: "calculate a clock now teamData =
          \<lparr> invoked = [''rffl_standard''], flagged = False,
            outcome = Inl (TypeError ''this.calculateWithFallback is not a function''),
            history_after = medianHistory a \<rparr>"
    if "\<not> isValid (validateResult (validationRules a) p)"
    using that assms p by (simp add: calculate_def Let_def)
  have f: "calculateWithFallback a clock teamData =
          (if isValid (validateResult (validationRules a) s)
           then ([''statistical_median''], Inr s)
           else if isValid (validateResult (validationRules a) w)
           then ([''statistical_median'', ''weighted_median''], Inr w)
           else ([''statistical_median'', ''weighted_median''],
                 Inl (Error ''All calculation algorithms failed'')))"
    using s w by (simp add: calculateWithFallback_def)
  from p s w c f show ?thesis by blast
qed

theorem fallback_not_reached_witness:
  "isValid (preValidateData (TeamArray scenarioA))
   \<and> calculate new_agent unit_clock (Fin 0) (TeamArray scenarioA) =
       \<lparr> invoked = [''rffl_standard''], flagged = False,
         outcome = Inl (TypeError ''this.calculateWithFallback is not a function''),
         history_after = [] \<rparr>
   \<and> calculateWithFallback new_agent unit_clock (TeamArray scenarioA) =
       ([''statistical_median'', ''weighted_median''],
        Inl (Error ''All calculation algorithms failed''))"
proof -
  have v: "isValid (preValidateData (TeamArray scenarioA))" by (simp add: scenarioA_prevalid)
  have r: "validationRules new_agent = setupValidationRules" by (simp add: new_agent_def)
  from fallback_not_reached [OF v, where a = new_agent and clock = unit_clock and now = "Fin 0"] v
  show ?thesis
    by (auto simp: r validateResult_setup_invalid new_agent_def)
qed

section \<open>What input validation checks\<close>

lemma preValidateTeams_invalid:
  "i < length td \<Longrightarrow> \<not> is_number (score (td ! i)) \<Longrightarrow>
   ''Team '' @ show_nat (k + i) @ '': Invalid score'' \<in> set (preValidateTeams td k)"
proof (induction td arbitrary: i k)
  case Nil
  then show ?case by simp
next
  case (Cons t ts)
  show ?case
  proof (cases i)
    case 0
    with Cons.prems show ?thesis by simp
  next
    case (Suc j)
    with Cons.prems have "j < length ts" "\<not> is_number (score (ts ! j))" by simp_all
    from Cons.IH [OF this, of "k + 1"] Suc show ?thesis by simp
  qed
qed

lemma preValidateTeams_range:
  "i < length td \<Longrightarrow>
   num_lt (to_num (score (td ! i))) (Fin 0) \<or> num_gt (to_num (score (td ! i))) (Fin 300) \<Longrightarrow>
   ''Team '' @ show_nat (k + i) @ '': Score out of range'' \<in> set (preValidateTeams td k)"
proof (induction td arbitrary: i k)
  case Nil
  then show ?case by simp
next
  case (Cons t ts)
  show ?case
  proof (cases i)
    case 0
    with Cons.prems show ?thesis by auto
  next
    case (Suc j)
    with Cons.prems have "j < length ts"
      "num_lt (to_num (score (ts ! j))) (Fin 0) \<or> num_gt (to_num (score (ts ! j))) (Fin 300)"
      by simp_all
    from Cons.IH [OF this, of "k + 1"] Suc show ?thesis by simp
  qed
qed

lemma preValidateTeams_ids:
  "preValidateTeams (map (\<lambda>t. t\<lparr>team := f t, canonicalCode := g t\<rparr>) td) k = preValidateTeams td k"
  by (induction td arbitrary: k) simp_all

text \<open>
  C8, as stated, fails: \<open>preValidateData\<close> reads no identifier, and
  \<open>validateTeamData\<close> only asks that one of \<open>team\<close> and \<open>canonicalCode\<close> is present.
  Twelve entries with one shared identifier pass both.
\<close>

theorem identifiers_unchecked_counterexample:
  "preValidateData (TeamArray duplicate_ids) = \<lparr> isValid = True, errors = [] \<rparr>
   \<and> validateTeamData (TeamArray duplicate_ids) = Inr True
   \<and> map team duplicate_ids = replicate 12 (Some ''DUP'')"
  by (simp add: duplicate_ids_def preValidateData_def mk_team_def num_gt_def eval_nat_numeral falsy_id_def)

text \<open>
  C8, amended. \<open>preValidateData\<close> reports entry \<open>i\<close> whenever its score is not of type
  number (\<open>Invalid score\<close>) or is a number below 0 or above 300, both infinities
  included (\<open>Score out of range\<close>); the outcome does not depend on the identifiers.
\<close>

theorem preValidate_reports_bad_scores:
  assumes "i < length td"
    and "\<not> is_number (score (td ! i)) \<or> score (td ! i) = VNum PInf \<or> score (td ! i) = VNum NInf
         \<or> (\<exists>x. score (td ! i) = VNum (Fin x) \<and> (x < 0 \<or> 300 < x))"
  shows "\<not> isValid (preValidateData (TeamArray td))
       \<and> (\<not> is_number (score (td ! i)) \<longrightarrow>
            ''Team '' @ show_nat i @ '': Invalid score'' \<in> set (errors (preValidateData (TeamArray td))))
       \<and> (is_number (score (td ! i)) \<longrightarrow>
            ''Team '' @ show_nat i @ '': Score out of range''
              \<in> set (errors (preValidateData (TeamArray td))))
       \<and> preValidateData (TeamArray (map (\<lambda>t. t\<lparr>team := f t, canonicalCode := g t\<rparr>) td))
           = preValidateData (TeamArray td)"
proof -
  let ?errs = "errors (preValidateData (TeamArray td))"
  have sub: "set (preValidateTeams td 0) \<subseteq> set ?errs"
    by (simp add: preValidateData_def Let_def)
  have inv: "''Team '' @ show_nat i @ '': Invalid score'' \<in> set ?errs"
    if "\<not> is_number (score (td ! i))"
    using preValidateTeams_invalid [OF assms(1) that, of 0] sub by auto
  have rng: "''Team '' @ show_nat i @ '': Score out of range'' \<in> set ?errs"
    if n: "is_number (score (td ! i))"
  proof -
    from assms(2) n
    have "num_lt (to_num (score (td ! i))) (Fin 0) \<or> num_gt (to_num (score (td ! i))) (Fin 300)"
      by (auto simp: num_gt_def)
    from preValidateTeams_range [OF assms(1) this, of 0] sub show ?thesis by auto
  qed
  from inv rng have "?errs \<noteq> []" by (cases "is_number (score (td ! i))") auto
  then have bad: "\<not> isValid (preValidateData (TeamArray td))"
    by (simp add: preValidateData_def Let_def)
  have ids: "preValidateData (TeamArray (map (\<lambda>t. t\<lparr>team := f t, canonicalCode := g t\<rparr>) td))
           = preValidateData (TeamArray td)"
    by (simp add: preValidateData_def Let_def preValidateTeams_ids)
  from bad inv rng ids show ?thesis by blast
qed

theorem preValidate_reports_bad_scores_witness:
  "3 < length out_of_range_teams
   \<and> score (out_of_range_teams ! 3) = VNum (Fin 301)
   \<and> \<not> isValid (preValidateData (TeamArray out_of_range_teams))
   \<and> ''Team 3: Score out of range'' \<in> set (errors (preValidateData (TeamArray out_of_range_teams)))"
proof -
  have l: "3 < length out_of_range_teams" by (simp add: out_of_range_teams_def scenarioA_def)
  have s: "score (out_of_range_teams ! 3) = VNum (Fin 301)"
    by (simp add: out_of_range_teams_def scenarioA_def mk_team_def)
  have n: "show_nat 3 = ''3''" by (simp add: show_nat.simps [of 3] digit_char_def)
  from preValidate_reports_bad_scores [OF l, where f = team and g = canonicalCode] l s n
  show ?thesis by simp
qed

section \<open>Repeated invocations\<close>

lemma cwa_time:
  "length td = 12 \<Longrightarrow>
   map_sum id calculationTime (calculateWithAlgorithm acc ''rffl_standard'' (TeamArray td) clk)
     = Inr (num_sub (snd clk) (fst clk))"
  using rffl_returns [of td]
  by (auto simp: calculateWithAlgorithm_def scoringAlgorithms_def)

lemma cwa_confidence:
  "length td = 12 \<Longrightarrow>
   map_sum id confidence (calculateWithAlgorithm acc ''rffl_standard'' (TeamArray td) clk)
     = Inr (acc ''rffl_standard'')"
  using rffl_returns [of td]
  by (auto simp: calculateWithAlgorithm_def scoringAlgorithms_def)

text \<open>
  C9, as stated, fails: the result of \<open>calculateWithAlgorithm\<close> carries
  \<open>calculationTime\<close>, the difference of two clock readings, so two invocations on the
  same input differ as soon as the readings do. It also carries \<open>confidence\<close>, the
  accuracy of the algorithm at the time of the call, so the results differ as well once
  \<open>incorporateFeedback\<close> has changed that accuracy between the two invocations.
\<close>

theorem timing_fields_differ_counterexample:
  "calculateWithAlgorithm initial_accuracy ''rffl_standard'' (TeamArray scenarioA) (Fin 0, Fin 1)
     \<noteq> calculateWithAlgorithm initial_accuracy ''rffl_standard'' (TeamArray scenarioA) (Fin 0, Fin 2)
   \<and> calculateWithAlgorithm initial_accuracy ''rffl_standard'' (TeamArray scenarioA) (Fin 0, Fin 1)
     \<noteq> calculateWithAlgorithm (incorporateFeedback initial_accuracy ''rffl_standard'' (Fin (1 / 2)))
          ''rffl_standard'' (TeamArray scenarioA) (Fin 0, Fin 1)"
proof -
  have l: "length scenarioA = 12" by (simp add: scenarioA_def)
  have "calculateWithAlgorithm initial_accuracy ''rffl_standard'' (TeamArray scenarioA) (Fin 0, Fin 1)
     \<noteq> calculateWithAlgorithm initial_accuracy ''rffl_standard'' (TeamArray scenarioA) (Fin 0, Fin 2)"
  proof
    assume "calculateWithAlgorithm initial_accuracy ''rffl_standard'' (TeamArray scenarioA) (Fin 0, Fin 1)
      = calculateWithAlgorithm initial_accuracy ''rffl_standard'' (TeamArray scenarioA) (Fin 0, Fin 2)"
    with cwa_time [OF l, of initial_accuracy "(Fin 0, Fin 1)"]
      cwa_time [OF l, of initial_accuracy "(Fin 0, Fin 2)"]
    show False by (simp add: num_sub_def)
  qed
  moreover
  have "calculateWithAlgorithm initial_accuracy ''rffl_standard'' (TeamArray scenarioA) (Fin 0, Fin 1)
     \<noteq> calculateWithAlgorithm (incorporateFeedback initial_accuracy ''rffl_standard'' (Fin (1 / 2)))
          ''rffl_standard'' (TeamArray scenarioA) (Fin 0, Fin 1)"
  proof
    assume "calculateWithAlgorithm initial_accuracy ''rffl_standard'' (TeamArray scenarioA) (Fin 0, Fin 1)
     = calculateWithAlgorithm (incorporateFeedback initial_accuracy ''rffl_standard'' (Fin (1 / 2)))
          ''rffl_standard'' (TeamArray scenarioA) (Fin 0, Fin 1)"
    with cwa_confidence [OF l, of initial_accuracy "(Fin 0, Fin 1)"]
      cwa_confidence [OF l, of "incorporateFeedback initial_accuracy ''rffl_standard'' (Fin (1 / 2))"
        "(Fin 0, Fin 1)"]
    show False
      by (simp add: incorporateFeedback_def initial_accuracy_def scoringAlgorithms_def)
  qed
  ultimately show ?thesis by blast
qed

text \<open>
  C9, amended. Two invocations of the same algorithm on the same input agree in every
  property but \<open>calculationTime\<close>, which is the difference of the two clock readings of
  the invocation, and \<open>confidence\<close>, which is the accuracy of the algorithm at the time
  of the invocation; under one accuracy table they agree in every property but
  \<open>calculationTime\<close>. Two calls of \<open>calculateMedian\<close> agree in every property but
  \<open>calculatedAt\<close>.
\<close>

theorem results_equal_up_to_annotations:
  "map_sum id (\<lambda>r. r\<lparr>calculationTime := c, confidence := k\<rparr>)
       (calculateWithAlgorithm acc name teamData clock)
     = map_sum id (\<lambda>r. r\<lparr>calculationTime := c, confidence := k\<rparr>)
       (calculateWithAlgorithm acc' name teamData clock')
   \<and> map_sum id (\<lambda>r. r\<lparr>calculationTime := c\<rparr>) (calculateWithAlgorithm acc name teamData clock)
     = map_sum id (\<lambda>r. r\<lparr>calculationTime := c\<rparr>) (calculateWithAlgorithm acc name teamData clock')
   \<and> map_sum id (\<lambda>r. (calculationTime r, confidence r))
       (calculateWithAlgorithm acc name teamData clock)
     = map_sum id (\<lambda>r. (num_sub (snd clock) (fst clock), acc name))
       (calculateWithAlgorithm acc name teamData clock)
   \<and> map_sum id (\<lambda>r. r\<lparr>calculatedAt := d\<rparr>) (calculateMedian now teamScores)
     = map_sum id (\<lambda>r. r\<lparr>calculatedAt := d\<rparr>) (calculateMedian now' teamScores)"
  by (auto simp: calculateWithAlgorithm_def calculateMedian_def Let_def
      split: option.splits team_data.splits sum.splits)

section \<open>Scenario A\<close>

lemmas scenario_eval =
  calculateRFFLMedian_def scenarioA_def mk_team_def js_sort_def js_sort_vals_def js_minus_def num_sub_def Let_def
  js_index_def js_plus_def round2_def score_teams_def score_team_def num_gt_def outcomes_at_def
  mc_outcomes_at_def calculateWithAlgorithm_def scoringAlgorithms_def calculateMedian_def
  roundScore_def rank_team_def

text \<open>
  C2. On the twelve scores of Scenario A the standard strategy, run through
  \<open>calculateWithAlgorithm\<close>, returns the median 95.85; the entry with score 97.40 is a
  WIN with margin 1.55 and the entry with score 94.30 a LOSS with margin -1.55.
  \<open>MedianCalculator.calculateMedian\<close> returns the same median, outcomes and margins,
  at ranks 6 and 7.
\<close>

theorem scenarioA_median:
  "map_sum id (\<lambda>r. (median r, algorithm r, outcomes_at (9740 / 100) (teams r),
                     outcomes_at (9430 / 100) (teams r)))
     (calculateWithAlgorithm accuracy ''rffl_standard'' (TeamArray scenarioA) clock)
   = Inr (Fin (9585 / 100), ''rffl_standard'', [(WIN, Fin (155 / 100))], [(LOSS, Fin (- 155 / 100))])
   \<and> map_sum id (\<lambda>r. (mc_median r, mc_outcomes_at (9740 / 100) (mc_teams r),
                       mc_outcomes_at (9430 / 100) (mc_teams r)))
     (calculateMedian now scenarioA)
   = Inr (Fin (9585 / 100), [(6, WIN, Fin (155 / 100))], [(7, LOSS, Fin (- 155 / 100))])"
  by (simp add: scenario_eval)

section \<open>The outcome partition\<close>

lemma set_insert_by: "set (insert_by c x xs) = insert x (set xs)"
  by (induction xs) auto

lemma set_foldl_insert_by:
  "set (foldl (\<lambda>acc x. insert_by c x acc) acc xs) = set acc \<union> set xs"
  by (induction xs arbitrary: acc) (auto simp: set_insert_by)

lemma set_js_sort: "set (js_sort c xs) = set xs"
  by (simp add: js_sort_def set_foldl_insert_by)

lemma set_js_sort_vals: "set (js_sort_vals c xs) = set xs"
  by (auto simp: js_sort_vals_def set_js_sort)

lemma js_index_fin:
  assumes "\<forall>v\<in>set xs. \<exists>x. v = VNum (Fin x)" "0 \<le> i" "i < int (length xs)"
  shows "\<exists>x. js_index xs i = VNum (Fin x)"
proof -
  from assms(2,3) have "nat i < length xs" by simp
  then have "xs ! nat i \<in> set xs" by (rule nth_mem)
  with assms show ?thesis by (simp add: js_index_def)
qed

lemma half_fin: "\<exists>m. num_div (js_plus (VNum (Fin a)) (VNum (Fin b))) (Fin 2) = Fin m"
proof
  show "num_div (js_plus (VNum (Fin a)) (VNum (Fin b))) (Fin 2) = Fin ((a + b) / 2)"
    by (simp add: js_plus_def)
qed

lemma roundScore_fin: "\<exists>m. roundScore (Fin a) = Fin m"
proof
  show "roundScore (Fin a) = Fin (real_of_int \<lfloor>a * 10 ^ 2 + 1 / 2\<rfloor> / 10 ^ 2)"
    by (simp add: roundScore_def)
qed

lemma even_pos_ge2: "(k::int) mod 2 = 0 \<Longrightarrow> 0 < k \<Longrightarrow> 2 \<le> k"
  by presburger

lemma half_less: "(0::int) < k \<Longrightarrow> 0 \<le> k div 2 \<and> k div 2 < k"
  by presburger

lemma weighted_loop_fin:
  "\<forall>p\<in>set ps. \<exists>x. fst p = VNum (Fin x) \<Longrightarrow> \<exists>m. weighted_loop ps c mw = VNum (Fin m)"
proof (induction ps arbitrary: c)
  case Nil
  then show ?case by simp
next
  case (Cons p ps)
  obtain s w where p: "p = (s, w)" by (cases p)
  from Cons.prems p obtain x where s: "s = VNum (Fin x)" by auto
  from Cons.prems have rest: "\<forall>p\<in>set ps. \<exists>x. fst p = VNum (Fin x)" by simp
  show ?case
  proof (cases "num_ge (num_add c w) mw")
    case True
    show ?thesis
    proof (cases ps)
      case Nil
      with True p s show ?thesis by simp
    next
      case (Cons q qs)
      obtain s' w' where q: "q = (s', w')" by (cases q)
      from rest Cons q obtain y where y: "s' = VNum (Fin y)" by auto
      from half_fin obtain m where "num_div (js_plus (VNum (Fin x)) (VNum (Fin y))) (Fin 2) = Fin m"
        by blast
      with True p s Cons q y show ?thesis by simp
    qed
  next
    case False
    with Cons.IH [OF rest, of "num_add c w"] p show ?thesis by simp
  qed
qed

lemma num_lt_asym: "num_lt a b \<Longrightarrow> \<not> num_lt b a"
  by (cases a; cases b) auto

lemma score_team_partition:
  assumes "score t = VNum (Fin x)" "to_num med = Fin m"
  shows "marginVsMedian (score_team med t) = num_sub (to_num (score (score_team med t))) (to_num med)
       \<and> (result (score_team med t) = WIN \<longleftrightarrow> num_gt (marginVsMedian (score_team med t)) (Fin 0))
       \<and> (result (score_team med t) = LOSS \<longleftrightarrow> num_lt (marginVsMedian (score_team med t)) (Fin 0))
       \<and> (result (score_team med t) = TIE \<longleftrightarrow> num_eq (marginVsMedian (score_team med t)) (Fin 0))"
  using assms by (auto simp: score_team_def js_minus_def num_sub_def num_gt_def)

lemma score_teams_partition:
  assumes fin: "\<forall>t\<in>set td. \<exists>x. score t = VNum (Fin x)"
    and med: "td \<noteq> [] \<Longrightarrow> \<exists>m. to_num med = Fin m"
  shows "\<forall>s\<in>set (score_teams med td). partitioned (to_num med) s"
proof
  fix s assume "s \<in> set (score_teams med td)"
  then obtain t where t: "t \<in> set td" "s = score_team med t"
    by (auto simp: score_teams_def set_js_sort set_js_sort_vals)
  from t(1) have "td \<noteq> []" by auto
  from med [OF this] obtain m where m: "to_num med = Fin m" by blast
  from fin t(1) obtain x where x: "score t = VNum (Fin x)" by blast
  from score_team_partition [OF x m] show "partitioned (to_num med) s"
    by (simp add: partitioned_def t(2))
qed

lemma rffl_partition:
  assumes fin: "\<forall>t\<in>set td. \<exists>x. score t = VNum (Fin x)"
    and r: "calculateRFFLMedian td = Inr r"
  shows "st_median (stats r) = standard_unrounded td
       \<and> median r = round2 (to_num (standard_unrounded td))
       \<and> (\<forall>s\<in>set (teams r). partitioned (to_num (standard_unrounded td)) s)"
proof -
  let ?scores = "js_sort_vals (\<lambda>a b. js_minus b a) (map score td)"
  let ?med = "VNum (num_div (js_plus (js_index ?scores 5) (js_index ?scores 6)) (Fin 2))"
  have u: "standard_unrounded td = ?med"
    by (simp add: standard_unrounded_def ranked_scores_def)
  from r have len: "length td = 12"
    by (auto simp: calculateRFFLMedian_def Let_def length_js_sort_vals split: if_splits)
  from fin have f: "\<forall>v\<in>set ?scores. \<exists>x. v = VNum (Fin x)" by (auto simp: set_js_sort_vals)
  from js_index_fin [OF f, of 5] len obtain a where a: "js_index ?scores 5 = VNum (Fin a)"
    by (auto simp: length_js_sort_vals)
  from js_index_fin [OF f, of 6] len obtain b where b: "js_index ?scores 6 = VNum (Fin b)"
    by (auto simp: length_js_sort_vals)
  have m: "\<exists>m. to_num ?med = Fin m" using half_fin [of a b] by (simp add: a b)
  from r len have eq: "median r = round2 (to_num ?med)" "teams r = score_teams ?med td"
      "st_median (stats r) = ?med"
    by (auto simp: calculateRFFLMedian_def Let_def length_js_sort_vals calculateStats_def)
  from score_teams_partition [OF fin, of ?med] m eq show ?thesis
    unfolding u by metis
qed

lemma statistical_partition:
  assumes fin: "\<forall>t\<in>set td. \<exists>x. score t = VNum (Fin x)"
  shows "st_median (stats (calculateStatisticalMedian td)) = statistical_unrounded td
       \<and> median (calculateStatisticalMedian td) = round2 (to_num (statistical_unrounded td))
       \<and> (\<forall>s\<in>set (teams (calculateStatisticalMedian td)).
             partitioned (to_num (statistical_unrounded td)) s)"
proof -
  let ?scores = "js_sort_vals (\<lambda>a b. js_minus a b) (map score td)"
  let ?n = "int (length ?scores)"
  let ?med = "if ?n mod 2 = 0
                 then VNum (num_div (js_plus (js_index ?scores (?n div 2 - 1))
                                             (js_index ?scores (?n div 2))) (Fin 2))
                 else js_index ?scores (?n div 2)"
  have u: "statistical_unrounded td = ?med"
    by (simp add: statistical_unrounded_def ascending_scores_def Let_def length_js_sort_vals)
  from fin have f: "\<forall>v\<in>set ?scores. \<exists>x. v = VNum (Fin x)" by (auto simp: set_js_sort_vals)
  have m: "\<exists>m. to_num ?med = Fin m" if ne: "td \<noteq> []"
  proof (cases "?n mod 2 = 0")
    case True
    from ne have pos: "0 < ?n" by (simp add: length_js_sort_vals)
    with True have "2 \<le> ?n" by (rule even_pos_ge2)
    then have i: "0 \<le> ?n div 2 - 1" "?n div 2 - 1 < ?n" "0 \<le> ?n div 2" "?n div 2 < ?n"
      by presburger+
    from js_index_fin [OF f i(1,2)] obtain a where a: "js_index ?scores (?n div 2 - 1) = VNum (Fin a)"
      by blast
    from js_index_fin [OF f i(3,4)] obtain b where b: "js_index ?scores (?n div 2) = VNum (Fin b)"
      by blast
    from True a b half_fin [of a b] show ?thesis by simp
  next
    case False
    from ne have pos: "0 < ?n" by (simp add: length_js_sort_vals)
    then have i: "0 \<le> ?n div 2" "?n div 2 < ?n" using half_less by blast+
    from js_index_fin [OF f i] obtain b where b: "js_index ?scores (?n div 2) = VNum (Fin b)"
      by blast
    from False b show ?thesis by simp
  qed
  have eq: "median (calculateStatisticalMedian td) = round2 (to_num ?med)"
    "teams (calculateStatisticalMedian td) = score_teams ?med td"
    "st_median (stats (calculateStatisticalMedian td)) = ?med"
    by (simp_all add: calculateStatisticalMedian_def Let_def calculateStats_def)
  from score_teams_partition [OF fin, of ?med] m eq show ?thesis
    unfolding u by metis
qed

lemma weighted_partition:
  assumes fin: "\<forall>t\<in>set td. \<exists>x. score t = VNum (Fin x)"
  shows "st_median (stats (calculateWeightedMedian td weights)) = weighted_unrounded td weights
       \<and> median (calculateWeightedMedian td weights) = round2 (to_num (weighted_unrounded td weights))
       \<and> (\<forall>s\<in>set (teams (calculateWeightedMedian td weights)).
             partitioned (to_num (weighted_unrounded td weights)) s)"
proof -
  let ?ws = "case weights of None \<Rightarrow> map (\<lambda>_. Fin 1) td | Some w \<Rightarrow> w"
  let ?wd = "js_sort (\<lambda>a b. js_minus (fst a) (fst b))
               (map (\<lambda>i. (score (td ! i), weight_at ?ws i)) [0 ..< length td])"
  let ?med = "weighted_loop ?wd (Fin 0) (num_div (sum_nums ?ws) (Fin 2))"
  have u: "weighted_unrounded td weights = ?med"
    by (simp add: weighted_unrounded_def Let_def)
  from fin have f: "\<forall>p\<in>set ?wd. \<exists>x. fst p = VNum (Fin x)"
    by (auto simp: set_js_sort)
  from weighted_loop_fin [OF f] have m: "\<exists>m. to_num ?med = Fin m" by (metis to_num.simps(1))
  have eq: "median (calculateWeightedMedian td weights) = round2 (to_num ?med)"
    "teams (calculateWeightedMedian td weights) = score_teams ?med td"
    "st_median (stats (calculateWeightedMedian td weights)) = ?med"
    by (simp_all add: calculateWeightedMedian_def Let_def calculateStats_def)
  from score_teams_partition [OF fin, of ?med] m eq show ?thesis
    unfolding u by metis
qed

lemma rank_team_partition:
  assumes "score t = VNum (Fin x)"
  shows "mc_partitioned (Fin m) (rank_team (Fin m) t i)"
proof -
  from roundScore_fin obtain y where y: "roundScore (Fin (x - m)) = Fin y" by blast
  with assms show ?thesis
    by (auto simp: mc_partitioned_def rank_team_def Let_def num_sub_def num_gt_def)
qed

lemma mc_partition:
  assumes fin: "\<forall>t\<in>set td. \<exists>x. score t = VNum (Fin x)"
    and c: "calculateMedian now td = Inr c"
  shows "\<forall>s\<in>set (mc_teams c). mc_partitioned (mc_median c) s"
proof
  fix s assume s: "s \<in> set (mc_teams c)"
  let ?sorted = "js_sort (\<lambda>a b. js_minus (score b) (score a)) td"
  from c have len: "length td = 12" by (auto simp: calculateMedian_def split: if_splits)
  then have l5: "?sorted ! 5 \<in> set td" and l6: "?sorted ! 6 \<in> set td"
    using nth_mem [of 5 ?sorted] nth_mem [of 6 ?sorted] by (simp_all add: length_js_sort length_js_sort_vals set_js_sort set_js_sort_vals)
  from fin l5 obtain a where a: "score (?sorted ! 5) = VNum (Fin a)" by blast
  from fin l6 obtain b where b: "score (?sorted ! 6) = VNum (Fin b)" by blast
  have h: "num_div (js_plus (VNum (Fin a)) (VNum (Fin b))) (Fin 2) = Fin ((a + b) / 2)"
    by (simp add: js_plus_def)
  from roundScore_fin obtain m where m: "roundScore (Fin ((a + b) / 2)) = Fin m" by blast
  from c len have med: "mc_median c = Fin m"
    by (auto simp: calculateMedian_def Let_def a b h m)
  from c len have ts: "mc_teams c = map (\<lambda>(t, index). rank_team (Fin m) t index)
                          (zip ?sorted [0 ..< length ?sorted])"
    by (auto simp: calculateMedian_def Let_def a b h m)
  from s ts obtain t i where t: "t \<in> set ?sorted" "s = rank_team (Fin m) t i"
    by (auto dest: set_zip_leftD)
  from t(1) fin obtain x where "score t = VNum (Fin x)" by (auto simp: set_js_sort set_js_sort_vals)
  from rank_team_partition [OF this] t(2) med show "mc_partitioned (mc_median c) s" by simp
qed

lemma finite_score_iff: "finite_score t = (\<exists>x. score t = VNum (Fin x))"
proof (cases "score t")
  case (VNum n)
  then show ?thesis by (cases n) (simp_all add: finite_score_def)
qed (simp_all add: finite_score_def)

lemma finite_scoreD: "list_all finite_score td \<Longrightarrow> \<forall>t\<in>set td. \<exists>x. score t = VNum (Fin x)"
  by (simp add: list_all_iff finite_score_iff)

lemma scenarioA_finite: "list_all finite_score scenarioA"
  by (simp add: scenarioA_def mk_team_def finite_score_def)

text \<open>
  C3, as stated, fails for the strategies of the scoring agent: they compare the score
  with the unrounded median and round only the returned \<open>median\<close>. In \<open>near_tie\<close> the
  returned median is 100.02 and the entry with score 100.02 is a WIN with margin 0.005,
  although its score minus the returned median is 0.
\<close>

theorem margin_unrounded_counterexample:
  "map_sum id (\<lambda>r. (median r, outcomes_at (10002 / 100) (teams r))) (calculateRFFLMedian near_tie)
   = Inr (Fin (10002 / 100), [(WIN, Fin (5 / 1000))])"
  by (simp add: scenario_eval near_tie_def)

text \<open>
  C3, amended. For finite scores, every entry returned by a strategy has exactly one
  outcome, WIN iff its margin is positive, LOSS iff it is negative, TIE iff it is 0.
  In the three strategies of the scoring agent the margin is the score minus the
  unrounded median of the strategy, which the result keeps in \<open>stats.median\<close>; the
  returned \<open>median\<close> is that value rounded. In \<open>MedianCalculator.calculateMedian\<close>
  the margin is the score minus the returned, rounded median, rounded again to two
  decimals.
\<close>

theorem outcome_partition:
  assumes "list_all finite_score td"
  shows "(calculateRFFLMedian td = Inr r \<longrightarrow>
            st_median (stats r) = standard_unrounded td
          \<and> median r = round2 (to_num (standard_unrounded td))
          \<and> list_all (partitioned (to_num (standard_unrounded td))) (teams r))
       \<and> st_median (stats (calculateStatisticalMedian td)) = statistical_unrounded td
       \<and> median (calculateStatisticalMedian td) = round2 (to_num (statistical_unrounded td))
       \<and> list_all (partitioned (to_num (statistical_unrounded td)))
            (teams (calculateStatisticalMedian td))
       \<and> st_median (stats (calculateWeightedMedian td weights)) = weighted_unrounded td weights
       \<and> median (calculateWeightedMedian td weights) = round2 (to_num (weighted_unrounded td weights))
       \<and> list_all (partitioned (to_num (weighted_unrounded td weights)))
            (teams (calculateWeightedMedian td weights))
       \<and> (calculateMedian now td = Inr c \<longrightarrow> list_all (mc_partitioned (mc_median c)) (mc_teams c))"
  using finite_scoreD [OF assms] rffl_partition [of td r] statistical_partition [of td]
    weighted_partition [of td weights] mc_partition [of td now c]
  unfolding list_all_iff by blast

lemma near_tie_unrounded: "standard_unrounded near_tie = VNum (Fin (100015 / 1000))"
  by (simp add: standard_unrounded_def ranked_scores_def near_tie_def scenario_eval)

theorem outcome_partition_witness:
  "list_all finite_score near_tie
   \<and> (\<exists>r. calculateRFFLMedian near_tie = Inr r
          \<and> st_median (stats r) = VNum (Fin (100015 / 1000))
          \<and> median r = Fin (10002 / 100)
          \<and> list_all (partitioned (Fin (100015 / 1000))) (teams r))"
proof -
  have f: "list_all finite_score near_tie"
    by (simp add: near_tie_def scenarioA_def mk_team_def finite_score_def)
  have "length near_tie = 12" by (simp add: near_tie_def scenarioA_def)
  from rffl_returns [OF this] obtain r where r: "calculateRFFLMedian near_tie = Inr r" by blast
  from outcome_partition [OF f, where r = r and weights = None] r f
  show ?thesis
    by (simp add: near_tie_unrounded round2_def)
qed

section \<open>Identical scores\<close>













section \<open>Statistical outliers\<close>

lemma cs_list:
  fixes ys :: "real list"
  shows "(sum_list ys)\<^sup>2 \<le> real (length ys) * sum_list (map (\<lambda>y. y\<^sup>2) ys)"
proof (induction ys)
  case Nil
  then show ?case by simp
next
  case (Cons y ys)
  let ?S = "sum_list ys" and ?Q = "sum_list (map (\<lambda>y. y\<^sup>2) ys)" and ?k = "real (length ys)"
  have Q0: "0 \<le> ?Q" by (rule sum_list_nonneg) auto
  have cross: "2 * y * ?S \<le> ?k * y\<^sup>2 + ?Q"
  proof (cases "length ys = 0")
    case True
    then show ?thesis by simp
  next
    case False
    then have k: "0 < ?k" by simp
    have "0 \<le> (?k * y - ?S)\<^sup>2" by simp
    then have "2 * ?k * y * ?S \<le> ?k\<^sup>2 * y\<^sup>2 + ?S\<^sup>2"
      by (simp add: power2_diff algebra_simps)
    also have "\<dots> \<le> ?k\<^sup>2 * y\<^sup>2 + ?k * ?Q" using Cons.IH by simp
    finally have "?k * (2 * y * ?S) \<le> ?k * (?k * y\<^sup>2 + ?Q)"
      by (simp add: algebra_simps power2_eq_square)
    with k show ?thesis by (simp only: mult_le_cancel_left_pos)
  qed
  have "(sum_list (y # ys))\<^sup>2 = y\<^sup>2 + 2 * y * ?S + ?S\<^sup>2"
    by (simp add: power2_sum)
  also have "\<dots> \<le> y\<^sup>2 + (?k * y\<^sup>2 + ?Q) + ?k * ?Q"
    using cross Cons.IH by linarith
  also have "\<dots> = real (length (y # ys)) * sum_list (map (\<lambda>y. y\<^sup>2) (y # ys))"
    by (simp add: algebra_simps)
  finally show ?case .
qed

text \<open>Samuelson's inequality.\<close>

lemma deviation_bound:
  fixes xs :: "real list"
  assumes x: "x \<in> set xs"
  defines "m \<equiv> sum_list xs / real (length xs)"
  shows "real (length xs) * (x - m)\<^sup>2
           \<le> real (length xs - 1) * sum_list (map (\<lambda>y. (y - m)\<^sup>2) xs)"
proof -
  from x obtain as bs where split: "xs = as @ x # bs" by (auto simp: in_set_conv_decomp)
  let ?rest = "map (\<lambda>y. y - m) (as @ bs)"
  from x have n: "0 < length xs" by (cases xs) auto
  have "sum_list (map (\<lambda>y. y - m) xs) = sum_list xs - real (length xs) * m"
    by (induction xs) (simp_all add: algebra_simps)
  also have "\<dots> = 0" using n by (simp add: m_def)
  finally have zero: "sum_list (map (\<lambda>y. y - m) xs) = 0" .
  then have rest: "sum_list ?rest = - (x - m)" by (simp add: split)
  have len: "length ?rest = length xs - 1" by (simp add: split)
  have sq: "sum_list (map (\<lambda>y. (y - m)\<^sup>2) xs)
              = (x - m)\<^sup>2 + sum_list (map (\<lambda>y. y\<^sup>2) ?rest)"
    by (simp add: split comp_def)
  define k where "k = real (length xs - 1)"
  define D where "D = (x - m)\<^sup>2"
  define V where "V = sum_list (map (\<lambda>y. (y - m)\<^sup>2) xs)"
  from cs_list [of ?rest] have "D \<le> k * sum_list (map (\<lambda>y. y\<^sup>2) ?rest)"
    by (simp only: rest len power2_minus k_def D_def)
  moreover have "V = D + sum_list (map (\<lambda>y. y\<^sup>2) ?rest)"
    by (simp only: V_def D_def sq)
  ultimately have A: "D + k * D \<le> k * V" by (simp add: algebra_simps)
  from n have N: "real (length xs) = 1 + k"
    unfolding k_def by (cases "length xs") simp_all
  have "real (length xs) * D \<le> k * V"
    unfolding N using A by (simp add: algebra_simps)
  then show ?thesis by (simp only: k_def D_def V_def)
qed


lemma foldl_vals_fin:
  "foldl (\<lambda>s v. num_add s (to_num v)) (Fin a) (map (\<lambda>y. VNum (Fin y)) xs) = Fin (a + sum_list xs)"
  by (induction xs arbitrary: a) (simp_all add: algebra_simps)

lemma foldl_nums_fin: "foldl num_add (Fin a) (map Fin ys) = Fin (a + sum_list ys)"
  by (induction ys arbitrary: a) (simp_all add: algebra_simps)

lemma mean_fin:
  "xs \<noteq> [] \<Longrightarrow>
   num_div (sum_vals (map (\<lambda>y. VNum (Fin y)) xs)) (num_of_nat (length (map (\<lambda>y. VNum (Fin y)) xs)))
     = Fin (sum_list xs / real (length xs))"
  by (simp add: sum_vals_def foldl_vals_fin num_of_nat_def)

lemma stddev_fin:
  assumes "xs \<noteq> []"
  shows "calculateStandardDeviation (map (\<lambda>y. VNum (Fin y)) xs)
     = Fin (sqrt (sum_list (map (\<lambda>y. (y - sum_list xs / real (length xs))\<^sup>2) xs) / real (length xs)))"
proof -
  let ?m = "sum_list xs / real (length xs)"
  have d: "map (\<lambda>score. num_pow2 (num_sub (to_num score) (Fin ?m))) (map (\<lambda>y. VNum (Fin y)) xs)
      = map Fin (map (\<lambda>y. (y - ?m)\<^sup>2) xs)"
    by (simp add: num_sub_def power2_eq_square)
  have nonneg: "0 \<le> sum_list (map (\<lambda>y. (y - ?m)\<^sup>2) xs)" by (rule sum_list_nonneg) auto
  then have nn: "\<not> sum_list (map (\<lambda>y. (y - ?m)\<^sup>2) xs) / real (length xs) < 0"
    by (simp add: not_less)
  show ?thesis
    unfolding calculateStandardDeviation_def Let_def mean_fin [OF assms] d sum_nums_def foldl_nums_fin
    using assms nn by (simp add: num_of_nat_def)
qed

lemma sqrt_11_less: "sqrt 11 < 35 / 10"
proof -
  have "sqrt 11 < sqrt ((35 / 10) * (35 / 10))" by (simp only: real_sqrt_less_iff)
  also have "\<dots> = \<bar>35 / 10\<bar>" by (rule real_sqrt_abs2)
  finally show ?thesis by simp
qed

text \<open>The z-score that \<open>detectStatisticalAnomalies\<close> computes for an entry of twelve finite
  scores is \<open>NaN\<close> (all scores equal) or at most \<open>sqrt 11\<close>, so never 3.5.\<close>

lemma z_score_bound:
  assumes len: "length xs = 12" and x: "x \<in> set xs"
  shows "\<exists>z. num_abs (num_div (num_sub (Fin x)
              (num_div (sum_vals (map (\<lambda>y. VNum (Fin y)) xs))
                       (num_of_nat (length (map (\<lambda>y. VNum (Fin y)) xs)))))
              (calculateStandardDeviation (map (\<lambda>y. VNum (Fin y)) xs))) = z
          \<and> (z = NaN \<or> (\<exists>r. z = Fin r \<and> r < 35 / 10))"
proof -
  let ?m = "sum_list xs / real (length xs)"
  let ?V = "sum_list (map (\<lambda>y. (y - ?m)\<^sup>2) xs)"
  from len have ne: "xs \<noteq> []" by auto
  have V0: "0 \<le> ?V" by (rule sum_list_nonneg) auto
  from deviation_bound [OF x] len have b: "12 * (x - ?m)\<^sup>2 \<le> 11 * ?V" by simp
  show ?thesis
  proof (cases "?V = 0")
    case True
    with b have "(x - ?m)\<^sup>2 \<le> 0" by simp
    then have "x - ?m = 0" by (simp add: power2_le_iff_abs_le)
    with True show ?thesis
      unfolding mean_fin [OF ne] stddev_fin [OF ne] by (simp add: num_sub_def)
  next
    case False
    with V0 have Vp: "0 < ?V" by simp
    let ?sd = "sqrt (?V / 12)"
    from Vp have sdp: "0 < ?sd" by simp
    have "((x - ?m) / ?sd)\<^sup>2 = (x - ?m)\<^sup>2 / (?V / 12)"
      using Vp by (simp add: power_divide)
    also have "\<dots> = 12 * (x - ?m)\<^sup>2 / ?V" by simp
    also have "\<dots> \<le> 11" using b Vp by (simp add: divide_le_eq)
    finally have "\<bar>(x - ?m) / ?sd\<bar> \<le> sqrt 11"
      by (metis real_sqrt_abs real_sqrt_le_iff)
    with sqrt_11_less have lt: "\<bar>(x - ?m) / ?sd\<bar> < 35 / 10" by linarith
    from sdp have "?sd \<noteq> 0" by simp
    with lt len show ?thesis
      unfolding mean_fin [OF ne] stddev_fin [OF ne] by (simp add: num_sub_def)
  qed
qed



lemma pattern_types:
  "map anomaly_type (anomalies (detectPatternAnomalies d)) = []
   \<or> map anomaly_type (anomalies (detectPatternAnomalies d)) = [''score_clustering'']"
  by (simp add: detectPatternAnomalies_def Let_def report_def)








end
